theory Spec2Isabelle
  imports Main
begin

text \<open>
  A model of the checkout SDK: the session manager (carts, totals, expiry), the payment
  manager (the calls to the payment gateway) and the SDK object that combines them.
  The code is single-threaded JavaScript; the model runs one operation at a time, to
  completion, and takes as arguments what the operation reads from outside: the clock at
  each \<open>new Date()\<close>, each generated id, each answer of the gateway and of the
  fulfilment callback. Interleavings of two operations at an \<open>await\<close> are not modelled.
\<close>

section \<open>Data model (types/index.ts)\<close>

text \<open>
  JavaScript numbers that carry amounts are documented as integer cents and quantities as
  item counts; they are modelled as \<open>int\<close>. A \<open>Date\<close> is its millisecond time stamp
  (\<open>getTime()\<close>), an \<open>int\<close>; comparing two dates compares the time stamps. The optional
  \<open>metadata\<close> fields and the optional image/category/tags fields of a product are never
  read or written by the code modelled here and are left out.
\<close>

datatype Currency = USD | EUR | GBP | CAD | AUD

datatype ProductType = Digital | Physical

record Product =
  p_id :: string
  p_name :: string
  p_description :: string
  p_price :: int
  p_currency :: Currency
  p_type :: ProductType

datatype SessionStatus =
  Pending | Ready | Processing | Completed | Failed | Expired | Cancelled

record CartItem =
  productId :: string
  quantity :: int
  price :: int
  currency :: Currency
  name :: string

record Address =
  line1 :: string
  line2 :: "string option"
  city :: string
  state :: string
  postalCode :: string
  country :: string

record BuyerInfo =
  email :: string
  b_name :: "string option"
  phone :: "string option"
  address :: "Address option"

record Totals =
  subtotal :: int
  tax :: int
  shipping :: int
  discount :: int
  total :: int
  t_currency :: Currency

datatype PaymentStatus = PayPending | PaySucceeded | PayFailed

record PaymentInfo =
  stripePaymentIntentId :: "string option"
  pay_status :: PaymentStatus
  paidAt :: "int option"

record CheckoutSession =
  s_id :: string
  status :: SessionStatus
  items :: "CartItem list"
  buyer :: "BuyerInfo option"
  totals :: Totals
  payment :: "PaymentInfo option"
  createdAt :: int
  expiresAt :: int

datatype OrderStatus = OrderPending | Fulfilled | Refunded | OrderCancelled

record OrderPayment =
  op_stripePaymentIntentId :: string
  op_paidAt :: int

record Order =
  o_id :: string
  sessionId :: string
  o_items :: "CartItem list"
  o_buyer :: BuyerInfo
  o_totals :: Totals
  o_payment :: OrderPayment
  o_status :: OrderStatus
  o_createdAt :: int

text \<open>
  Every \<open>throw new Error(msg)\<close> of the source is a value of this type, one constructor
  per message family:
  \<^item> \<open>SessionNotFound\<close>: 'Session not found or expired'
  \<^item> \<open>ProductNotFound pid\<close>: 'Product not found: pid'
  \<^item> \<open>InvalidQuantity\<close>: 'Quantity must be positive'
  \<^item> \<open>ItemNotInCart\<close>: 'Item not in cart'
  \<^item> \<open>EmptyCart\<close>: 'Cannot ... empty cart' / '... for empty cart'
  \<^item> \<open>MissingBuyerInfo\<close>: 'Buyer email is required', 'Buyer information required to create order'
  \<^item> \<open>TotalNotPositive\<close>: 'Total must be greater than 0'
  \<^item> \<open>PaymentFailed x\<close>: 'Payment failed: x'
  \<^item> \<open>PaymentNotSucceeded\<close>: 'Payment must be succeeded to create order'
  \<^item> \<open>MissingPaymentInput\<close>: 'Must provide either paymentMethodId or cardDetails'
  \<^item> \<open>TokenError x\<close>: 'Failed to create payment token: x'
  \<^item> \<open>StripeApiError x\<close>: 'Stripe API error: x'
  \<^item> \<open>Foreign x\<close>: an exception raised by a collaborator (the Stripe SDK, the network,
    the \<open>onPurchase\<close> callback) that the code lets through unchanged.
\<close>

datatype error =
    SessionNotFound
  | ProductNotFound string
  | InvalidQuantity
  | ItemNotInCart
  | EmptyCart
  | MissingBuyerInfo
  | TotalNotPositive
  | PaymentFailed string
  | PaymentNotSucceeded
  | MissingPaymentInput
  | TokenError string
  | StripeApiError string
  | Foreign string

section \<open>Utilities (utils/index.ts)\<close>

text \<open>\<open>items.reduce((sum, item) => sum + (item.price * item.quantity), 0)\<close>\<close>

definition calculateSubtotal :: "CartItem list \<Rightarrow> int" where
  "calculateSubtotal its = foldl (\<lambda>sum item. sum + price item * quantity item) 0 its"

section \<open>SessionManager (managers/session.ts)\<close>

text \<open>
  The manager owns the \<open>sessions\<close> map, the product catalogue and the TTL in milliseconds.
  A session object lives in the map under exactly one key, its own id, so a mutation of the
  object obtained from \<open>get\<close> is an update of the map at that key. Every operation takes
  the value that \<open>new Date()\<close> yields inside it as the argument \<open>now\<close>, and \<open>create\<close>
  takes the string that \<open>generateId('cs_')\<close> yields as \<open>gid\<close>. A thrown error is
  \<open>Inl\<close>; the manager is returned in both cases because \<open>get\<close> evicts before the throw.
\<close>

record SessionManager =
  sessions :: "string \<rightharpoonup> CheckoutSession"
  products :: "string \<rightharpoonup> Product"
  sessionTTL :: int

definition new_SessionManager :: "Product list \<Rightarrow> int \<Rightarrow> SessionManager" where
  "new_SessionManager ps ttl =
     \<lparr>sessions = Map.empty,
      products = foldl (\<lambda>m product. m(p_id product \<mapsto> product)) Map.empty ps,
      sessionTTL = ttl * 1000\<rparr>"

definition create :: "int \<Rightarrow> string \<Rightarrow> SessionManager \<Rightarrow> CheckoutSession \<times> SessionManager" where
  "create now gid m =
     (let session =
        \<lparr>s_id = gid, status = Pending, items = [], buyer = None,
         totals = \<lparr>subtotal = 0, tax = 0, shipping = 0, discount = 0, total = 0,
                   t_currency = USD\<rparr>,
         payment = None, createdAt = now, expiresAt = now + sessionTTL m\<rparr>
      in (session, m\<lparr>sessions := (sessions m)(s_id session \<mapsto> session)\<rparr>))"

definition get :: "int \<Rightarrow> string \<Rightarrow> SessionManager \<Rightarrow> CheckoutSession option \<times> SessionManager" where
  "get now sid m =
     (case sessions m sid of
        None \<Rightarrow> (None, m)
      | Some session \<Rightarrow>
          if now > expiresAt session
          then (None, m\<lparr>sessions := (sessions m)(sid := None)\<rparr>)
          else (Some session, m))"

definition recalculateTotals :: "CheckoutSession \<Rightarrow> CheckoutSession" where
  "recalculateTotals session =
     (let subtotal = calculateSubtotal (items session);
          tax = 0;
          shipping = 0;
          discount = 0;
          total = subtotal + tax + shipping - discount;
          currency = (case items session of [] \<Rightarrow> USD | item # _ \<Rightarrow> currency item)
      in session\<lparr>totals := \<lparr>subtotal = subtotal, tax = tax, shipping = shipping,
                              discount = discount, total = total, t_currency = currency\<rparr>\<rparr>)"

text \<open>
  \<open>find\<close> returns the first matching object of the array and the code then assigns to
  its \<open>quantity\<close> field; the array afterwards is the old one with that object changed.
\<close>

fun update_found :: "('a \<Rightarrow> bool) \<Rightarrow> ('a \<Rightarrow> 'a) \<Rightarrow> 'a list \<Rightarrow> 'a list" where
  "update_found P f [] = []"
| "update_found P f (x # xs) = (if P x then f x # xs else x # update_found P f xs)"

definition addItem ::
  "int \<Rightarrow> string \<Rightarrow> string \<Rightarrow> int \<Rightarrow> SessionManager \<Rightarrow> (error + CheckoutSession) \<times> SessionManager" where
  "addItem now sid pid qty m =
     (case get now sid m of
        (None, m') \<Rightarrow> (Inl SessionNotFound, m')
      | (Some session, m') \<Rightarrow>
          (case products m' pid of
             None \<Rightarrow> (Inl (ProductNotFound pid), m')
           | Some product \<Rightarrow>
               if qty \<le> 0 then (Inl InvalidQuantity, m')
               else
                 let s1 = (case find (\<lambda>item. productId item = pid) (items session) of
                             Some existingItem \<Rightarrow>
                               session\<lparr>items := update_found (\<lambda>item. productId item = pid)
                                           (\<lambda>item. item\<lparr>quantity := quantity item + qty\<rparr>)
                                           (items session)\<rparr>
                           | None \<Rightarrow>
                               session\<lparr>items := items session @
                                  [\<lparr>productId = p_id product, quantity = qty,
                                    price = p_price product, currency = p_currency product,
                                    name = p_name product\<rparr>]\<rparr>);
                     s2 = recalculateTotals s1;
                     s3 = (if status s2 = Pending \<and> length (items s2) > 0
                           then s2\<lparr>status := Ready\<rparr> else s2)
                 in (Inr s3, m'\<lparr>sessions := (sessions m')(sid \<mapsto> s3)\<rparr>)))"

definition removeItem ::
  "int \<Rightarrow> string \<Rightarrow> string \<Rightarrow> SessionManager \<Rightarrow> (error + CheckoutSession) \<times> SessionManager" where
  "removeItem now sid pid m =
     (case get now sid m of
        (None, m') \<Rightarrow> (Inl SessionNotFound, m')
      | (Some session, m') \<Rightarrow>
          let s1 = session\<lparr>items := filter (\<lambda>item. productId item \<noteq> pid) (items session)\<rparr>;
              s2 = recalculateTotals s1;
              s3 = (if length (items s2) = 0 then s2\<lparr>status := Pending\<rparr> else s2)
          in (Inr s3, m'\<lparr>sessions := (sessions m')(sid \<mapsto> s3)\<rparr>))"

definition updateQuantity ::
  "int \<Rightarrow> string \<Rightarrow> string \<Rightarrow> int \<Rightarrow> SessionManager \<Rightarrow> (error + CheckoutSession) \<times> SessionManager" where
  "updateQuantity now sid pid qty m =
     (if qty = 0 then removeItem now sid pid m
      else
        case get now sid m of
          (None, m') \<Rightarrow> (Inl SessionNotFound, m')
        | (Some session, m') \<Rightarrow>
            (case find (\<lambda>item. productId item = pid) (items session) of
               None \<Rightarrow> (Inl ItemNotInCart, m')
             | Some item \<Rightarrow>
                 let s1 = session\<lparr>items := update_found (\<lambda>item. productId item = pid)
                                      (\<lambda>item. item\<lparr>quantity := qty\<rparr>) (items session)\<rparr>;
                     s2 = recalculateTotals s1
                 in (Inr s2, m'\<lparr>sessions := (sessions m')(sid \<mapsto> s2)\<rparr>)))"

definition setBuyer ::
  "int \<Rightarrow> string \<Rightarrow> BuyerInfo \<Rightarrow> SessionManager \<Rightarrow> (error + CheckoutSession) \<times> SessionManager" where
  "setBuyer now sid b m =
     (case get now sid m of
        (None, m') \<Rightarrow> (Inl SessionNotFound, m')
      | (Some session, m') \<Rightarrow>
          let s1 = session\<lparr>buyer := Some b\<rparr>;
              s2 = recalculateTotals s1
          in (Inr s2, m'\<lparr>sessions := (sessions m')(sid \<mapsto> s2)\<rparr>))"

definition updateStatus ::
  "int \<Rightarrow> string \<Rightarrow> SessionStatus \<Rightarrow> SessionManager \<Rightarrow> (error + CheckoutSession) \<times> SessionManager" where
  "updateStatus now sid st m =
     (case get now sid m of
        (None, m') \<Rightarrow> (Inl SessionNotFound, m')
      | (Some session, m') \<Rightarrow>
          let s1 = session\<lparr>status := st\<rparr>
          in (Inr s1, m'\<lparr>sessions := (sessions m')(sid \<mapsto> s1)\<rparr>))"

definition delete :: "string \<Rightarrow> SessionManager \<Rightarrow> SessionManager" where
  "delete sid m = m\<lparr>sessions := (sessions m)(sid := None)\<rparr>"

text \<open>The periodic sweep: every entry whose expiry lies before \<open>now\<close> is deleted.\<close>

definition cleanup :: "int \<Rightarrow> SessionManager \<Rightarrow> SessionManager" where
  "cleanup now m =
     m\<lparr>sessions := (\<lambda>sessionId.
          case sessions m sessionId of
            None \<Rightarrow> None
          | Some session \<Rightarrow> if now > expiresAt session then None else Some session)\<rparr>"

section \<open>PaymentManager (managers/payment.ts)\<close>

text \<open>
  The payment gateway is a collaborator. What it answers to a call is an argument of the
  model (\<open>Inl\<close>: the SDK call throws, \<open>Inr\<close>: it returns), so every theorem holds for
  every gateway behaviour. \<open>StripeError\<close> is an exception for which
  \<open>error instanceof Stripe.errors.StripeError\<close> holds, \<open>OtherError\<close> any other one.
  Each function also returns the calls it issued to collaborators, in order, so that
  "a charge is attempted" can be stated.
\<close>

datatype Thrown = StripeError string | OtherError string

record PaymentIntent =
  pi_id :: string
  pi_status :: string

record StripeCheckout =
  sc_id :: string
  sc_url :: string
  sc_expires_at :: int

record CardDetails =
  cd_number :: string
  cd_exp_month :: int
  cd_exp_year :: int
  cd_cvc :: string

datatype Call =
    PaymentIntentsCreate string int Currency
  | PaymentIntentsConfirm string string
  | PaymentIntentsCancel string
  | PaymentMethodsCreate string
  | GrantedTokensCreate string int
  | CheckoutSessionsCreate string string
  | OnPurchase Order

text \<open>An exception that no handler rewrites reaches the caller as it is.\<close>

fun uncaught :: "Thrown \<Rightarrow> error" where
  "uncaught (StripeError msg) = Foreign msg"
| "uncaught (OtherError msg) = Foreign msg"

definition createPaymentIntent ::
  "CheckoutSession \<Rightarrow> Thrown + PaymentIntent \<Rightarrow> (error + PaymentIntent) \<times> Call list" where
  "createPaymentIntent session created =
     (if length (items session) = 0 then (Inl EmptyCart, [])
      else if total (totals session) \<le> 0 then (Inl TotalNotPositive, [])
      else
        (case created of
           Inl t \<Rightarrow> Inl (uncaught t)
         | Inr paymentIntent \<Rightarrow> Inr paymentIntent,
         [PaymentIntentsCreate (s_id session) (total (totals session))
            (t_currency (totals session))]))"

text \<open>JavaScript truthiness of an optional string and of an optional number.\<close>

fun truthy_string :: "string option \<Rightarrow> bool" where
  "truthy_string None = False"
| "truthy_string (Some s) = (s \<noteq> [])"

fun truthy_number :: "int option \<Rightarrow> bool" where
  "truthy_number None = False"
| "truthy_number (Some n) = (n \<noteq> 0)"

definition processSharedPaymentToken ::
  "CheckoutSession \<Rightarrow> string \<Rightarrow> Thrown + PaymentIntent \<Rightarrow> Thrown + PaymentIntent
     \<Rightarrow> (error + PaymentIntent) \<times> Call list" where
  "processSharedPaymentToken session spt created confirmed =
     (let paymentIntentId =
            (case payment session of None \<Rightarrow> None | Some p \<Rightarrow> stripePaymentIntentId p);
          (r, cs) = (if \<not> truthy_string paymentIntentId
                     then (case createPaymentIntent session created of
                             (Inl e, cs) \<Rightarrow> (Inl e, cs)
                           | (Inr pi, cs) \<Rightarrow> (Inr (pi_id pi), cs))
                     else (Inr (the paymentIntentId), []))
      in case r of
           Inl e \<Rightarrow> (Inl e, cs)
         | Inr pid \<Rightarrow>
             (case confirmed of
                Inl (StripeError msg) \<Rightarrow> Inl (PaymentFailed msg)
              | Inl (OtherError msg) \<Rightarrow> Inl (Foreign msg)
              | Inr paymentIntent \<Rightarrow> Inr paymentIntent,
              cs @ [PaymentIntentsConfirm pid spt]))"

definition createOrderFromSession ::
  "CheckoutSession \<Rightarrow> PaymentIntent \<Rightarrow> string \<Rightarrow> int \<Rightarrow> int \<Rightarrow> error + Order" where
  "createOrderFromSession session paymentIntent oid paid created =
     (case buyer session of
        None \<Rightarrow> Inl MissingBuyerInfo
      | Some b \<Rightarrow>
          if pi_status paymentIntent \<noteq> ''succeeded'' then Inl PaymentNotSucceeded
          else Inr \<lparr>o_id = oid, sessionId = s_id session, o_items = items session,
                    o_buyer = b, o_totals = totals session,
                    o_payment = \<lparr>op_stripePaymentIntentId = pi_id paymentIntent,
                                 op_paidAt = paid\<rparr>,
                    o_status = OrderPending, o_createdAt = created\<rparr>)"

definition has_email :: "BuyerInfo option \<Rightarrow> bool" where
  "has_email b = (case b of None \<Rightarrow> False | Some bi \<Rightarrow> email bi \<noteq> [])"

definition createCheckoutSession ::
  "CheckoutSession \<Rightarrow> Thrown + StripeCheckout \<Rightarrow> (error + StripeCheckout) \<times> Call list" where
  "createCheckoutSession session created =
     (if length (items session) = 0 then (Inl EmptyCart, [])
      else if \<not> has_email (buyer session) then (Inl MissingBuyerInfo, [])
      else
        (case created of
           Inl t \<Rightarrow> Inl (uncaught t)
         | Inr checkoutSession \<Rightarrow> Inr checkoutSession,
         [CheckoutSessionsCreate (s_id session) (email (the (buyer session)))]))"

text \<open>
  \<open>granted\<close> is the outcome of the \<open>fetch\<close> of the granted-tokens endpoint: it throws,
  or answers not-ok with an error message, or answers with the token id.
\<close>

definition createSharedPaymentToken ::
  "CheckoutSession \<Rightarrow> string option \<Rightarrow> CardDetails option \<Rightarrow> Thrown + string
     \<Rightarrow> Thrown + (string + string) \<Rightarrow> (error + string) \<times> Call list" where
  "createSharedPaymentToken session paymentMethodId cardDetails method granted =
     (let caught = (\<lambda>t. case t of StripeError msg \<Rightarrow> TokenError msg
                                 | OtherError msg \<Rightarrow> Foreign msg);
          (r, cs) = (if truthy_string paymentMethodId then (Inr (the paymentMethodId), [])
                     else (case cardDetails of
                             Some cd \<Rightarrow>
                               (case method of Inl t \<Rightarrow> Inl (caught t) | Inr pm \<Rightarrow> Inr pm,
                                [PaymentMethodsCreate (cd_number cd)])
                           | None \<Rightarrow> (Inl MissingPaymentInput, [])))
      in case r of
           Inl e \<Rightarrow> (Inl e, cs)
         | Inr pm \<Rightarrow>
             (case granted of
                Inl t \<Rightarrow> Inl (caught t)
              | Inr (Inl msg) \<Rightarrow> Inl (StripeApiError msg)
              | Inr (Inr token) \<Rightarrow> Inr token,
              cs @ [GrantedTokensCreate pm (total (totals session))]))"

section \<open>CommerceTools (commerce.ts)\<close>

text \<open>
  The SDK object owns a session manager and the in-memory \<open>orders\<close> map. The field
  \<open>calls\<close> is a record, oldest first, of the calls it has made to its collaborators
  (the payment gateway and the \<open>onPurchase\<close> callback); the code has no such field.
\<close>

record CommerceTools =
  sessionManager :: SessionManager
  orders :: "string \<rightharpoonup> Order"
  calls :: "Call list"

definition new_CommerceTools :: "Product list \<Rightarrow> int \<Rightarrow> CommerceTools" where
  "new_CommerceTools ps ttl =
     \<lparr>sessionManager = new_SessionManager ps ttl, orders = Map.empty, calls = []\<rparr>"

definition createSession :: "int \<Rightarrow> string \<Rightarrow> CommerceTools \<Rightarrow> CheckoutSession \<times> CommerceTools" where
  "createSession now gid c =
     (case create now gid (sessionManager c) of
        (session, m') \<Rightarrow> (session, c\<lparr>sessionManager := m'\<rparr>))"

definition getSession :: "int \<Rightarrow> string \<Rightarrow> CommerceTools \<Rightarrow> CheckoutSession option \<times> CommerceTools" where
  "getSession now sid c =
     (case get now sid (sessionManager c) of
        (r, m') \<Rightarrow> (r, c\<lparr>sessionManager := m'\<rparr>))"

text \<open>
  \<open>if (!sessionId)\<close> holds for \<open>undefined\<close> and for the empty string. \<open>now_create\<close> is
  the clock read by \<open>create\<close> and \<open>gid\<close> the generated id, both used only on that branch;
  \<open>now\<close> is the clock read by the \<open>get\<close> inside \<open>addItem\<close>.
\<close>

definition addToCart ::
  "int \<Rightarrow> string \<Rightarrow> int \<Rightarrow> string option \<Rightarrow> string \<Rightarrow> int \<Rightarrow> CommerceTools
     \<Rightarrow> (error + CheckoutSession) \<times> CommerceTools" where
  "addToCart now_create gid now session_id pid qty c =
     (let (sid, m1) = (if \<not> truthy_string session_id
                       then (case create now_create gid (sessionManager c) of
                               (newSession, m') \<Rightarrow> (s_id newSession, m'))
                       else (the session_id, sessionManager c))
      in case addItem now sid pid qty m1 of
           (r, m2) \<Rightarrow> (r, c\<lparr>sessionManager := m2\<rparr>))"

definition removeFromCart ::
  "int \<Rightarrow> string \<Rightarrow> string \<Rightarrow> CommerceTools \<Rightarrow> (error + CheckoutSession) \<times> CommerceTools" where
  "removeFromCart now sid pid c =
     (case removeItem now sid pid (sessionManager c) of
        (r, m') \<Rightarrow> (r, c\<lparr>sessionManager := m'\<rparr>))"

definition ct_updateQuantity ::
  "int \<Rightarrow> string \<Rightarrow> string \<Rightarrow> int \<Rightarrow> CommerceTools \<Rightarrow> (error + CheckoutSession) \<times> CommerceTools" where
  "ct_updateQuantity now sid pid qty c =
     (case updateQuantity now sid pid qty (sessionManager c) of
        (r, m') \<Rightarrow> (r, c\<lparr>sessionManager := m'\<rparr>))"

definition ct_setBuyer ::
  "int \<Rightarrow> string \<Rightarrow> int \<Rightarrow> string option \<Rightarrow> BuyerInfo \<Rightarrow> CommerceTools
     \<Rightarrow> (error + CheckoutSession) \<times> CommerceTools" where
  "ct_setBuyer now_create gid now session_id b c =
     (let (sid, m1) = (if \<not> truthy_string session_id
                       then (case create now_create gid (sessionManager c) of
                               (newSession, m') \<Rightarrow> (s_id newSession, m'))
                       else (the session_id, sessionManager c))
      in case setBuyer now sid b m1 of
           (r, m2) \<Rightarrow> (r, c\<lparr>sessionManager := m2\<rparr>))"

definition createPaymentToken ::
  "int \<Rightarrow> string \<Rightarrow> string option \<Rightarrow> string option \<Rightarrow> int option \<Rightarrow> int option \<Rightarrow> string option
     \<Rightarrow> Thrown + string \<Rightarrow> Thrown + (string + string) \<Rightarrow> CommerceTools
     \<Rightarrow> (error + string) \<times> CommerceTools" where
  "createPaymentToken now sid paymentMethodId cardNumber expMonth expYear cvc method granted c =
     (case get now sid (sessionManager c) of
        (None, m') \<Rightarrow> (Inl SessionNotFound, c\<lparr>sessionManager := m'\<rparr>)
      | (Some session, m') \<Rightarrow>
          if length (items session) = 0 then (Inl EmptyCart, c\<lparr>sessionManager := m'\<rparr>)
          else if total (totals session) \<le> 0
          then (Inl TotalNotPositive, c\<lparr>sessionManager := m'\<rparr>)
          else
            (case createSharedPaymentToken session paymentMethodId
                    (if truthy_string cardNumber \<and> truthy_number expMonth
                        \<and> truthy_number expYear \<and> truthy_string cvc
                     then Some \<lparr>cd_number = the cardNumber, cd_exp_month = the expMonth,
                                cd_exp_year = the expYear, cd_cvc = the cvc\<rparr>
                     else None)
                    method granted of
               (r, cs) \<Rightarrow> (r, c\<lparr>sessionManager := m', calls := calls c @ cs\<rparr>)))"

record PaymentLink =
  url :: string
  pl_expiresAt :: int
  stripeSessionId :: string

definition createPaymentLink ::
  "int \<Rightarrow> string \<Rightarrow> Thrown + StripeCheckout \<Rightarrow> CommerceTools
     \<Rightarrow> (error + PaymentLink) \<times> CommerceTools" where
  "createPaymentLink now sid created c =
     (case get now sid (sessionManager c) of
        (None, m') \<Rightarrow> (Inl SessionNotFound, c\<lparr>sessionManager := m'\<rparr>)
      | (Some session, m') \<Rightarrow>
          if length (items session) = 0 then (Inl EmptyCart, c\<lparr>sessionManager := m'\<rparr>)
          else if \<not> has_email (buyer session)
          then (Inl MissingBuyerInfo, c\<lparr>sessionManager := m'\<rparr>)
          else
            (case createCheckoutSession session created of
               (Inl e, cs) \<Rightarrow> (Inl e, c\<lparr>sessionManager := m', calls := calls c @ cs\<rparr>)
             | (Inr stripeSession, cs) \<Rightarrow>
                 (Inr \<lparr>url = sc_url stripeSession,
                       pl_expiresAt = sc_expires_at stripeSession * 1000,
                       stripeSessionId = sc_id stripeSession\<rparr>,
                  c\<lparr>sessionManager := m', calls := calls c @ cs\<rparr>)))"

text \<open>
  Everything the outside world contributes to one run of \<open>completeCheckout\<close>: the clock
  at each of the four places where the session is looked up (the first \<open>get\<close>, and the
  \<open>get\<close> inside the status updates to 'processing', 'completed' and, in the handler,
  'failed'), the gateway's answers, the generated order id, the two time stamps of the
  order, and whether the \<open>onPurchase\<close> callback throws (\<open>Some msg\<close>) or returns.
\<close>

record CompleteEnv =
  now_get :: int
  now_processing :: int
  now_completed :: int
  now_failed :: int
  intent_created :: "Thrown + PaymentIntent"
  intent_confirmed :: "Thrown + PaymentIntent"
  order_id :: string
  now_paidAt :: int
  now_createdAt :: int
  purchase_hook :: "string option"

text \<open>The \<open>catch\<close> block: mark the session failed and rethrow.\<close>

definition on_catch ::
  "CompleteEnv \<Rightarrow> string \<Rightarrow> error \<Rightarrow> CommerceTools \<Rightarrow> (error + Order) \<times> CommerceTools" where
  "on_catch env sid e c =
     (case updateStatus (now_failed env) sid Failed (sessionManager c) of
        (Inl e', m') \<Rightarrow> (Inl e', c\<lparr>sessionManager := m'\<rparr>)
      | (Inr _, m') \<Rightarrow> (Inl e, c\<lparr>sessionManager := m'\<rparr>))"

definition completeCheckout ::
  "CompleteEnv \<Rightarrow> string \<Rightarrow> string \<Rightarrow> CommerceTools \<Rightarrow> (error + Order) \<times> CommerceTools" where
  "completeCheckout env sid sharedPaymentToken c =
     (case get (now_get env) sid (sessionManager c) of
        (None, m0) \<Rightarrow> (Inl SessionNotFound, c\<lparr>sessionManager := m0\<rparr>)
      | (Some session0, m0) \<Rightarrow>
          if length (items session0) = 0 then (Inl EmptyCart, c\<lparr>sessionManager := m0\<rparr>)
          else if \<not> has_email (buyer session0)
          then (Inl MissingBuyerInfo, c\<lparr>sessionManager := m0\<rparr>)
          else
            (case updateStatus (now_processing env) sid Processing m0 of
               (Inl e, m1) \<Rightarrow> (Inl e, c\<lparr>sessionManager := m1\<rparr>)
             | (Inr session, m1) \<Rightarrow>
                 (case processSharedPaymentToken session sharedPaymentToken
                         (intent_created env) (intent_confirmed env) of
                    (Inl e, cs) \<Rightarrow>
                      on_catch env sid e (c\<lparr>sessionManager := m1, calls := calls c @ cs\<rparr>)
                  | (Inr paymentIntent, cs) \<Rightarrow>
                      let c2 = c\<lparr>sessionManager := m1, calls := calls c @ cs\<rparr> in
                      if pi_status paymentIntent \<noteq> ''succeeded''
                      then on_catch env sid (PaymentFailed (pi_status paymentIntent)) c2
                      else
                        (case createOrderFromSession session paymentIntent (order_id env)
                                (now_paidAt env) (now_createdAt env) of
                           Inl e \<Rightarrow> on_catch env sid e c2
                         | Inr order \<Rightarrow>
                             let c3 = c2\<lparr>orders := (orders c2)(o_id order \<mapsto> order)\<rparr> in
                             (case updateStatus (now_completed env) sid Completed
                                     (sessionManager c3) of
                                (Inl e, m4) \<Rightarrow> on_catch env sid e (c3\<lparr>sessionManager := m4\<rparr>)
                              | (Inr _, m4) \<Rightarrow>
                                  let c4 = c3\<lparr>sessionManager := m4,
                                              calls := calls c3 @ [OnPurchase order]\<rparr> in
                                  (case purchase_hook env of
                                     Some msg \<Rightarrow> on_catch env sid (Foreign msg) c4
                                   | None \<Rightarrow> (Inr order, c4)))))))"

text \<open>
  \<open>now\<close> is the clock at the first \<open>get\<close>, \<open>now_cancelled\<close> the clock at the \<open>get\<close>
  inside the status update; \<open>intent_cancelled\<close> is what the gateway's cancel call throws,
  if it is made and throws.
\<close>

definition cancelCheckout ::
  "int \<Rightarrow> int \<Rightarrow> Thrown option \<Rightarrow> string \<Rightarrow> CommerceTools \<Rightarrow> (error + unit) \<times> CommerceTools" where
  "cancelCheckout now now_cancelled intent_cancelled sid c =
     (case get now sid (sessionManager c) of
        (None, m0) \<Rightarrow> (Inl SessionNotFound, c\<lparr>sessionManager := m0\<rparr>)
      | (Some session, m0) \<Rightarrow>
          let paymentIntentId =
                (case payment session of None \<Rightarrow> None | Some p \<Rightarrow> stripePaymentIntentId p);
              cs = (if truthy_string paymentIntentId
                    then [PaymentIntentsCancel (the paymentIntentId)] else []);
              c1 = c\<lparr>sessionManager := m0, calls := calls c @ cs\<rparr>
          in if truthy_string paymentIntentId \<and> intent_cancelled \<noteq> None
             then (Inl (uncaught (the intent_cancelled)), c1)
             else
               (case updateStatus now_cancelled sid Cancelled m0 of
                  (Inl e, m1) \<Rightarrow> (Inl e, c1\<lparr>sessionManager := m1\<rparr>)
                | (Inr _, m1) \<Rightarrow> (Inr (), c1\<lparr>sessionManager := m1\<rparr>)))"

definition getOrder :: "string \<Rightarrow> CommerceTools \<Rightarrow> Order option" where
  "getOrder orderId c = orders c orderId"

section \<open>Vocabulary of the properties\<close>

text \<open>
  The totals of a session agree with its cart: the subtotal is the sum of price times
  quantity over the items, tax, shipping and discount are zero, and the total is
  subtotal + tax + shipping - discount.
\<close>

definition totals_consistent :: "CheckoutSession \<Rightarrow> bool" where
  "totals_consistent s \<longleftrightarrow>
     subtotal (totals s) = (\<Sum>item\<leftarrow>items s. price item * quantity item)
     \<and> tax (totals s) = 0 \<and> shipping (totals s) = 0 \<and> discount (totals s) = 0
     \<and> total (totals s) = subtotal (totals s) + tax (totals s) + shipping (totals s)
          - discount (totals s)"

definition all_consistent :: "SessionManager \<Rightarrow> bool" where
  "all_consistent m \<longleftrightarrow> (\<forall>sid s. sessions m sid = Some s \<longrightarrow> totals_consistent s)"

text \<open>
  One call of a public method of the session manager, with the clock value and the
  generated id it meets, and the manager after each call of a sequence of them.
\<close>

datatype SessionOp =
    Create int string
  | Get int string
  | AddItem int string string int
  | RemoveItem int string string
  | UpdateQuantity int string string int
  | SetBuyer int string BuyerInfo
  | UpdateStatus int string SessionStatus
  | Delete string
  | Cleanup int

fun step :: "SessionOp \<Rightarrow> SessionManager \<Rightarrow> SessionManager" where
  "step (Create now gid) m = snd (create now gid m)"
| "step (Get now sid) m = snd (get now sid m)"
| "step (AddItem now sid pid qty) m = snd (addItem now sid pid qty m)"
| "step (RemoveItem now sid pid) m = snd (removeItem now sid pid m)"
| "step (UpdateQuantity now sid pid qty) m = snd (updateQuantity now sid pid qty m)"
| "step (SetBuyer now sid b) m = snd (setBuyer now sid b m)"
| "step (UpdateStatus now sid st) m = snd (updateStatus now sid st m)"
| "step (Delete sid) m = delete sid m"
| "step (Cleanup now) m = cleanup now m"

fun run :: "SessionOp list \<Rightarrow> SessionManager \<Rightarrow> SessionManager list" where
  "run [] m = []"
| "run (op # ops) m = step op m # run ops (step op m)"

text \<open>
  One call of a caller-facing operation of the SDK, with everything the outside world
  contributes to it (clock values, generated ids, answers of the gateway and of the
  callback), and the SDK state after each call of a sequence of them. \<open>Manager\<close> is a
  call made on the session manager that \<open>getSessionManager()\<close> hands out.
\<close>

datatype Request =
    CreateSession int string
  | GetSession int string
  | AddToCart int string int "string option" string int
  | RemoveFromCart int string string
  | UpdateCartQuantity int string string int
  | SetBuyerInfo int string int "string option" BuyerInfo
  | CreatePaymentToken int string "string option" "string option" "int option" "int option"
      "string option" "Thrown + string" "Thrown + (string + string)"
  | CreatePaymentLink int string "Thrown + StripeCheckout"
  | CompleteCheckout CompleteEnv string string
  | CancelCheckout int int "Thrown option" string
  | Manager SessionOp

fun serve :: "Request \<Rightarrow> CommerceTools \<Rightarrow> CommerceTools" where
  "serve (CreateSession now gid) c = snd (createSession now gid c)"
| "serve (GetSession now sid) c = snd (getSession now sid c)"
| "serve (AddToCart now_create gid now session_id pid qty) c =
     snd (addToCart now_create gid now session_id pid qty c)"
| "serve (RemoveFromCart now sid pid) c = snd (removeFromCart now sid pid c)"
| "serve (UpdateCartQuantity now sid pid qty) c = snd (ct_updateQuantity now sid pid qty c)"
| "serve (SetBuyerInfo now_create gid now session_id b) c =
     snd (ct_setBuyer now_create gid now session_id b c)"
| "serve (CreatePaymentToken now sid pm cardNumber expMonth expYear cvc method granted) c =
     snd (createPaymentToken now sid pm cardNumber expMonth expYear cvc method granted c)"
| "serve (CreatePaymentLink now sid created) c = snd (createPaymentLink now sid created c)"
| "serve (CompleteCheckout env sid spt) c = snd (completeCheckout env sid spt c)"
| "serve (CancelCheckout now now_cancelled intent_cancelled sid) c =
     snd (cancelCheckout now now_cancelled intent_cancelled sid c)"
| "serve (Manager op) c = c\<lparr>sessionManager := step op (sessionManager c)\<rparr>"

fun serve_all :: "Request list \<Rightarrow> CommerceTools \<Rightarrow> CommerceTools list" where
  "serve_all [] c = []"
| "serve_all (rq # rqs) c = serve rq c # serve_all rqs (serve rq c)"

subsection \<open>A small shop used for the concrete runs\<close>

definition product_A :: Product where
  "product_A = \<lparr>p_id = ''A'', p_name = ''Product A'', p_description = ''first product'',
                 p_price = 1999, p_currency = USD, p_type = Digital\<rparr>"

definition product_B :: Product where
  "product_B = \<lparr>p_id = ''B'', p_name = ''Product B'', p_description = ''second product'',
                 p_price = 2999, p_currency = USD, p_type = Digital\<rparr>"

definition shop :: CommerceTools where
  "shop = new_CommerceTools [product_A, product_B] 3600"

definition alice :: BuyerInfo where
  "alice = \<lparr>email = ''alice@example.com'', b_name = None, phone = None, address = None\<rparr>"

text \<open>Scenario of the specification: two of A, one of B, then A removed.\<close>

definition scenario :: "Request list" where
  "scenario = [CreateSession 0 ''cs_1'',
               AddToCart 0 [] 1 (Some ''cs_1'') ''A'' 2,
               AddToCart 0 [] 2 (Some ''cs_1'') ''B'' 1,
               RemoveFromCart 3 ''cs_1'' ''A'']"

text \<open>A session holding one unit of product A, created at time 0.\<close>

definition cart_manager :: SessionManager where
  "cart_manager =
     last (run [Create 0 ''cs_1'', AddItem 1 ''cs_1'' ''A'' 1] (sessionManager shop))"

text \<open>A session that was created and cancelled at once, its cart still empty.\<close>

definition cancelled_shop :: CommerceTools where
  "cancelled_shop =
     snd (cancelCheckout 1 1 None ''cs_1'' (snd (createSession 0 ''cs_1'' shop)))"

text \<open>The catalogue of the shop after product A was repriced.\<close>

definition repriced :: "string \<rightharpoonup> Product" where
  "repriced = (products (sessionManager shop))
                (''A'' \<mapsto> product_A\<lparr>p_price := 2500, p_currency := EUR\<rparr>)"

text \<open>The SDK object around that session.\<close>

definition cart_shop :: CommerceTools where
  "cart_shop = shop\<lparr>sessionManager := cart_manager\<rparr>"

text \<open>
  The outside world of a token payment that goes through at time 10 to 20: the gateway
  creates payment intent pi_1 and confirms it as succeeded, the order id is ord_1 and the
  callback returns. \<open>charge_again\<close> is the same at time 30 to 40 with pi_2 and ord_2, and
  \<open>hook_fails\<close> is \<open>charge_ok\<close> with a callback that throws.
\<close>

definition charge_ok :: CompleteEnv where
  "charge_ok = \<lparr>now_get = 10, now_processing = 10, now_completed = 20, now_failed = 20,
                 intent_created = Inr \<lparr>pi_id = ''pi_1'', pi_status = ''requires_payment_method''\<rparr>,
                 intent_confirmed = Inr \<lparr>pi_id = ''pi_1'', pi_status = ''succeeded''\<rparr>,
                 order_id = ''ord_1'', now_paidAt = 20, now_createdAt = 20,
                 purchase_hook = None\<rparr>"

definition charge_again :: CompleteEnv where
  "charge_again = \<lparr>now_get = 30, now_processing = 30, now_completed = 40, now_failed = 40,
                 intent_created = Inr \<lparr>pi_id = ''pi_2'', pi_status = ''requires_payment_method''\<rparr>,
                 intent_confirmed = Inr \<lparr>pi_id = ''pi_2'', pi_status = ''succeeded''\<rparr>,
                 order_id = ''ord_2'', now_paidAt = 40, now_createdAt = 40,
                 purchase_hook = None\<rparr>"

definition hook_fails :: CompleteEnv where
  "hook_fails = charge_ok\<lparr>purchase_hook := Some ''mail server down''\<rparr>"

text \<open>
  The states of the SDK after the buyer was set on session cs_1 (\<open>ready_shop\<close>), after
  its checkout was then completed (\<open>paid_shop\<close>), and, instead, at the moment when a
  completion has marked it 'processing' and waits for the gateway (\<open>processing_shop\<close>).
\<close>

definition ready_shop :: CommerceTools where
  "ready_shop = snd (ct_setBuyer 0 [] 2 (Some ''cs_1'') alice cart_shop)"

definition paid_shop :: CommerceTools where
  "paid_shop = snd (completeCheckout charge_ok ''cs_1'' ''spt_1'' ready_shop)"

definition processing_shop :: CommerceTools where
  "processing_shop =
     ready_shop\<lparr>sessionManager :=
       snd (updateStatus 10 ''cs_1'' Processing (sessionManager ready_shop))\<rparr>"

text \<open>A hosted checkout session as the gateway answers it.\<close>

definition link_ok :: StripeCheckout where
  "link_ok = \<lparr>sc_id = ''cs_test_1'', sc_url = ''https://checkout.stripe.com/c/pay/cs_test_1'',
               sc_expires_at = 3610\<rparr>"

text \<open>
  The order that \<open>createOrderFromSession\<close> builds and the SDK state once it is stored,
  the session marked completed and the callback called.
\<close>

definition order_of :: "CompleteEnv \<Rightarrow> CheckoutSession \<Rightarrow> PaymentIntent \<Rightarrow> Order" where
  "order_of env s pi =
     \<lparr>o_id = order_id env, sessionId = s_id s, o_items = items s, o_buyer = the (buyer s),
      o_totals = totals s,
      o_payment = \<lparr>op_stripePaymentIntentId = pi_id pi, op_paidAt = now_paidAt env\<rparr>,
      o_status = OrderPending, o_createdAt = now_createdAt env\<rparr>"

definition after_payment ::
  "CompleteEnv \<Rightarrow> string \<Rightarrow> CheckoutSession \<Rightarrow> PaymentIntent \<Rightarrow> Call list \<Rightarrow> CommerceTools \<Rightarrow> CommerceTools" where
  "after_payment env sid s pi cs c =
     c\<lparr>sessionManager := (sessionManager c)
          \<lparr>sessions := (sessions (sessionManager c))(sid \<mapsto> s\<lparr>status := Completed\<rparr>)\<rparr>,
       orders := (orders c)(order_id env \<mapsto> order_of env s pi),
       calls := calls c @ cs @ [OnPurchase (order_of env s pi)]\<rparr>"

text \<open>The session that \<open>create\<close> builds.\<close>

definition fresh_session :: "int \<Rightarrow> string \<Rightarrow> SessionManager \<Rightarrow> CheckoutSession" where
  "fresh_session now gid m =
     \<lparr>s_id = gid, status = Pending, items = [], buyer = None,
      totals = \<lparr>subtotal = 0, tax = 0, shipping = 0, discount = 0, total = 0, t_currency = USD\<rparr>,
      payment = None, createdAt = now, expiresAt = now + sessionTTL m\<rparr>"

text \<open>
  A run of \<open>addItem\<close> calls on one session, each with its clock value, product id and
  quantity; only the manager is kept.
\<close>

fun add_others :: "(int \<times> string \<times> int) list \<Rightarrow> string \<Rightarrow> SessionManager \<Rightarrow> SessionManager" where
  "add_others [] sid m = m"
| "add_others ((now, pid, qty) # rest) sid m =
     add_others rest sid (snd (addItem now sid pid qty m))"

text \<open>
  The charge of a token payment goes through: a payment intent is recorded on the session
  or, the total being positive, the gateway creates one; and the gateway answers the
  confirmation with status 'succeeded'.
\<close>

definition charge_accepted :: "CheckoutSession \<Rightarrow> CompleteEnv \<Rightarrow> bool" where
  "charge_accepted s env \<longleftrightarrow>
     (truthy_string (case payment s of None \<Rightarrow> None | Some p \<Rightarrow> stripePaymentIntentId p)
        \<or> (0 < total (totals s) \<and> \<not> isl (intent_created env)))
     \<and> \<not> isl (intent_confirmed env)
     \<and> pi_status (projr (intent_confirmed env)) = ''succeeded''"

text \<open>A shop with a product of price zero, and a session holding it with the buyer set.\<close>

definition free_product :: Product where
  "free_product = \<lparr>p_id = ''F'', p_name = ''Free sample'', p_description = ''costs nothing'',
                    p_price = 0, p_currency = USD, p_type = Digital\<rparr>"

definition free_shop :: CommerceTools where
  "free_shop =
     snd (ct_setBuyer 0 [] 2 (Some ''cs_1'') alice
       (snd (addToCart 0 [] 1 (Some ''cs_1'') ''F'' 1
         (snd (createSession 0 ''cs_1'' (new_CommerceTools [free_product] 3600))))))"

section \<open>Totals follow the cart\<close>

lemma foldl_add_sum_list:
  "foldl (\<lambda>sum item. sum + f item) a xs = a + (\<Sum>x\<leftarrow>xs. f x)" for a :: int
  by (induction xs arbitrary: a) auto

lemma calculateSubtotal_sum:
  "calculateSubtotal its = (\<Sum>item\<leftarrow>its. price item * quantity item)"
  unfolding calculateSubtotal_def by (simp add: foldl_add_sum_list)

lemma recalculateTotals_consistent: "totals_consistent (recalculateTotals s)"
  by (simp add: totals_consistent_def recalculateTotals_def calculateSubtotal_sum Let_def)

lemma recalculateTotals_items [simp]: "items (recalculateTotals s) = items s"
  by (simp add: recalculateTotals_def Let_def)

lemma totals_consistent_status [simp]:
  "totals_consistent (s\<lparr>status := st\<rparr>) = totals_consistent s"
  by (simp add: totals_consistent_def)

lemma all_consistent_evict:
  "all_consistent m \<Longrightarrow> all_consistent (m\<lparr>sessions := (sessions m)(sid := None)\<rparr>)"
  by (auto simp: all_consistent_def)

lemma all_consistent_store:
  "all_consistent m \<Longrightarrow> totals_consistent s \<Longrightarrow>
     all_consistent (m\<lparr>sessions := (sessions m)(sid \<mapsto> s)\<rparr>)"
  by (auto simp: all_consistent_def)

lemma get_consistent:
  "all_consistent m \<Longrightarrow> get now sid m = (r, m') \<Longrightarrow>
     all_consistent m' \<and> (\<forall>s. r = Some s \<longrightarrow> totals_consistent s)"
  by (auto simp: get_def all_consistent_def split: option.splits if_splits)

lemma create_consistent: "all_consistent m \<Longrightarrow> all_consistent (snd (create now gid m))"
  by (auto simp: create_def Let_def all_consistent_def totals_consistent_def)

lemma addItem_consistent:
  assumes a: "all_consistent m"
  shows "all_consistent (snd (addItem now sid pid qty m))"
proof -
  obtain r m' where g: "get now sid m = (r, m')" by (cases "get now sid m")
  from get_consistent[OF a g] have c: "all_consistent m'" by simp
  show ?thesis
    using c g
    by (auto simp: addItem_def Let_def recalculateTotals_consistent
          intro!: all_consistent_store split: option.splits)
qed

lemma removeItem_consistent:
  assumes a: "all_consistent m"
  shows "all_consistent (snd (removeItem now sid pid m))"
proof -
  obtain r m' where g: "get now sid m = (r, m')" by (cases "get now sid m")
  from get_consistent[OF a g] have c: "all_consistent m'" by simp
  show ?thesis
    using c g
    by (auto simp: removeItem_def Let_def recalculateTotals_consistent
          intro!: all_consistent_store split: option.splits)
qed

lemma updateQuantity_consistent:
  assumes a: "all_consistent m"
  shows "all_consistent (snd (updateQuantity now sid pid qty m))"
proof -
  obtain r m' where g: "get now sid m = (r, m')" by (cases "get now sid m")
  from get_consistent[OF a g] have c: "all_consistent m'" by simp
  show ?thesis
    using c g removeItem_consistent[OF a, of now sid pid]
    by (auto simp: updateQuantity_def Let_def recalculateTotals_consistent
          intro!: all_consistent_store split: option.splits)
qed

lemma setBuyer_consistent:
  assumes a: "all_consistent m"
  shows "all_consistent (snd (setBuyer now sid b m))"
proof -
  obtain r m' where g: "get now sid m = (r, m')" by (cases "get now sid m")
  from get_consistent[OF a g] have c: "all_consistent m'" by simp
  show ?thesis
    using c g
    by (auto simp: setBuyer_def Let_def recalculateTotals_consistent
          intro!: all_consistent_store split: option.splits)
qed

lemma updateStatus_consistent:
  assumes a: "all_consistent m"
  shows "all_consistent (snd (updateStatus now sid st m))"
proof -
  obtain r m' where g: "get now sid m = (r, m')" by (cases "get now sid m")
  from get_consistent[OF a g]
  have c: "all_consistent m'" "\<forall>s. r = Some s \<longrightarrow> totals_consistent s" by simp_all
  show ?thesis
    using c g
    by (auto simp: updateStatus_def Let_def intro!: all_consistent_store split: option.splits)
qed

lemma step_consistent:
  assumes a: "all_consistent m"
  shows "all_consistent (step op m)"
proof (cases op)
  case (Get now sid)
  then show ?thesis
    using get_consistent[OF a, of now sid "fst (get now sid m)" "snd (get now sid m)"] by simp
next
  case (Delete sid)
  then show ?thesis using a by (simp add: delete_def all_consistent_evict)
next
  case (Cleanup now)
  then show ?thesis
    using a by (auto simp: cleanup_def all_consistent_def split: option.splits if_splits)
qed (simp_all add: a create_consistent addItem_consistent removeItem_consistent
      updateQuantity_consistent setBuyer_consistent updateStatus_consistent)

lemma run_consistent:
  "all_consistent m \<Longrightarrow> m' \<in> set (run ops m) \<Longrightarrow> all_consistent m'"
proof (induction ops arbitrary: m)
  case Nil
  then show ?case by simp
next
  case (Cons op ops)
  from Cons.prems(1) have s: "all_consistent (step op m)" by (rule step_consistent)
  from Cons.prems(2) have "m' = step op m \<or> m' \<in> set (run ops (step op m))" by simp
  then show ?case using s Cons.IH[OF s] by blast
qed

lemma new_SessionManager_consistent: "all_consistent (new_SessionManager ps ttl)"
  by (simp add: all_consistent_def new_SessionManager_def)

lemmas ct_defs = createSession_def getSession_def addToCart_def removeFromCart_def
  ct_updateQuantity_def ct_setBuyer_def createPaymentToken_def createPaymentLink_def
  on_catch_def completeCheckout_def cancelCheckout_def getOrder_def
  createPaymentIntent_def processSharedPaymentToken_def createOrderFromSession_def
  has_email_def createCheckoutSession_def createSharedPaymentToken_def

lemmas sm_defs = create_def get_def addItem_def removeItem_def updateQuantity_def
  setBuyer_def updateStatus_def delete_def cleanup_def recalculateTotals_def
  calculateSubtotal_def new_SessionManager_def Let_def

lemmas shop_defs = shop_def new_CommerceTools_def product_A_def product_B_def alice_def

lemma get_consistent_snd: "all_consistent m \<Longrightarrow> all_consistent (snd (get now sid m))"
  using get_consistent[of m now sid "fst (get now sid m)" "snd (get now sid m)"] by simp

lemma on_catch_consistent:
  "all_consistent (sessionManager c) \<Longrightarrow>
     all_consistent (sessionManager (snd (on_catch env sid e c)))"
  using updateStatus_consistent[of "sessionManager c" "now_failed env" sid Failed]
  by (auto simp: on_catch_def split: prod.splits sum.splits)

lemma completeCheckout_consistent:
  assumes a: "all_consistent (sessionManager c)"
  shows "all_consistent (sessionManager (snd (completeCheckout env sid spt c)))"
proof -
  obtain r m0 where g: "get (now_get env) sid (sessionManager c) = (r, m0)"
    by (cases "get (now_get env) sid (sessionManager c)")
  from get_consistent[OF a g] have c0: "all_consistent m0" by simp
  obtain r1 m1 where u: "updateStatus (now_processing env) sid Processing m0 = (r1, m1)"
    by (cases "updateStatus (now_processing env) sid Processing m0")
  from updateStatus_consistent[OF c0, of "now_processing env" sid Processing] u
  have c1: "all_consistent m1" by simp
  have c4: "\<And>m4 r4. updateStatus (now_completed env) sid Completed m1 = (r4, m4)
              \<Longrightarrow> all_consistent m4"
    using updateStatus_consistent[OF c1, of "now_completed env" sid Completed] by simp
  show ?thesis
    using g u c0 c1 c4
    by (auto simp: completeCheckout_def Let_def intro!: on_catch_consistent
          split: option.splits sum.splits prod.splits)
qed

lemma cancelCheckout_consistent:
  assumes a: "all_consistent (sessionManager c)"
  shows "all_consistent (sessionManager (snd (cancelCheckout now now_cancelled ic sid c)))"
proof -
  obtain r m0 where g: "get now sid (sessionManager c) = (r, m0)"
    by (cases "get now sid (sessionManager c)")
  from get_consistent[OF a g] have c0: "all_consistent m0" by simp
  show ?thesis
    using g c0 updateStatus_consistent[OF c0, of now_cancelled sid Cancelled]
    by (auto simp: cancelCheckout_def Let_def split: option.splits sum.splits prod.splits)
qed

lemma createPaymentLink_consistent:
  "all_consistent (sessionManager c) \<Longrightarrow>
     all_consistent (sessionManager (snd (createPaymentLink now sid created c)))"
  using get_consistent_snd[of "sessionManager c" now sid]
  by (auto simp: createPaymentLink_def split: option.splits sum.splits prod.splits)

lemma createPaymentToken_consistent:
  "all_consistent (sessionManager c) \<Longrightarrow>
     all_consistent (sessionManager (snd
       (createPaymentToken now sid pm cn em ey cv method granted c)))"
  using get_consistent_snd[of "sessionManager c" now sid]
  by (auto simp: createPaymentToken_def split: option.splits sum.splits prod.splits)

lemma addToCart_consistent:
  "all_consistent (sessionManager c) \<Longrightarrow>
     all_consistent (sessionManager (snd (addToCart now_create gid now session_id pid qty c)))"
  using addItem_consistent[OF create_consistent, of "sessionManager c" now gid pid qty now_create gid]
    addItem_consistent[of "sessionManager c" now "the session_id" pid qty]
  by (auto simp: addToCart_def create_def Let_def split: prod.splits)

lemma ct_setBuyer_consistent:
  "all_consistent (sessionManager c) \<Longrightarrow>
     all_consistent (sessionManager (snd (ct_setBuyer now_create gid now session_id b c)))"
  using setBuyer_consistent[OF create_consistent, of "sessionManager c" now gid b now_create gid]
    setBuyer_consistent[of "sessionManager c" now "the session_id" b]
  by (auto simp: ct_setBuyer_def create_def Let_def split: prod.splits)

lemma serve_consistent:
  assumes a: "all_consistent (sessionManager c)"
  shows "all_consistent (sessionManager (serve rq c))"
proof (cases rq)
  case (CreateSession now gid)
  then show ?thesis
    using create_consistent[OF a, of now gid] by (auto simp: createSession_def split: prod.splits)
next
  case (GetSession now sid)
  then show ?thesis
    using get_consistent_snd[OF a, of now sid] by (auto simp: getSession_def split: prod.splits)
next
  case (RemoveFromCart now sid pid)
  then show ?thesis
    using removeItem_consistent[OF a, of now sid pid]
    by (auto simp: removeFromCart_def split: prod.splits)
next
  case (UpdateCartQuantity now sid pid qty)
  then show ?thesis
    using updateQuantity_consistent[OF a, of now sid pid qty]
    by (auto simp: ct_updateQuantity_def split: prod.splits)
next
  case (Manager op)
  then show ?thesis using step_consistent[OF a, of op] by simp
qed (simp_all add: a addToCart_consistent ct_setBuyer_consistent createPaymentToken_consistent
      createPaymentLink_consistent completeCheckout_consistent cancelCheckout_consistent)

lemma serve_all_consistent:
  "all_consistent (sessionManager c) \<Longrightarrow> c' \<in> set (serve_all rqs c) \<Longrightarrow>
     all_consistent (sessionManager c')"
proof (induction rqs arbitrary: c)
  case Nil
  then show ?case by simp
next
  case (Cons rq rqs)
  from Cons.prems(1) have s: "all_consistent (sessionManager (serve rq c))"
    by (rule serve_consistent)
  from Cons.prems(2) have "c' = serve rq c \<or> c' \<in> set (serve_all rqs (serve rq c))" by simp
  then show ?case using s Cons.IH[OF s] by blast
qed

text \<open>
  Claim C1. Starting from an SDK state whose stored sessions all have totals that agree
  with their carts (in particular from a new SDK object), after each call of any sequence
  of caller-facing operations (createSession, getSession, addToCart, removeFromCart,
  updateQuantity, setBuyer, the payment operations, cancelCheckout, and the public methods
  of the session manager: create, get, addItem, removeItem, updateQuantity, setBuyer,
  updateStatus, delete, the sweep), whether the call succeeds or fails, every stored
  session has subtotal = sum of price times quantity over its items,
  tax = shipping = discount = 0 and total = subtotal + tax + shipping - discount.
\<close>

theorem totals_follow_cart:
  assumes "all_consistent (sessionManager c)"
  shows "\<forall>c' \<in> set (serve_all rqs c). \<forall>sid s.
           sessions (sessionManager c') sid = Some s \<longrightarrow> totals_consistent s"
  using serve_all_consistent[OF assms] by (auto simp: all_consistent_def)

theorem totals_follow_cart_witness:
  "totals_consistent (the (sessions (sessionManager (last (serve_all scenario shop))) ''cs_1''))
   \<and> map (\<lambda>c. map_option (\<lambda>s. subtotal (totals s)) (sessions (sessionManager c) ''cs_1''))
         (serve_all scenario shop)
       = [Some 0, Some 3998, Some 6997, Some 2999]"
proof -
  have h: "all_consistent (sessionManager shop)"
    by (simp add: shop_def new_CommerceTools_def new_SessionManager_consistent)
  have mem: "last (serve_all scenario shop) \<in> set (serve_all scenario shop)"
    by (simp add: scenario_def)
  have ex: "sessions (sessionManager (last (serve_all scenario shop))) ''cs_1''
              = Some (the (sessions (sessionManager (last (serve_all scenario shop))) ''cs_1''))"
    by (simp add: scenario_def shop_defs sm_defs ct_defs)
  from totals_follow_cart[OF h, of scenario] mem ex
  have "totals_consistent
          (the (sessions (sessionManager (last (serve_all scenario shop))) ''cs_1''))"
    by blast
  moreover have "map (\<lambda>c. map_option (\<lambda>s. subtotal (totals s)) (sessions (sessionManager c) ''cs_1''))
         (serve_all scenario shop) = [Some 0, Some 3998, Some 6997, Some 2999]"
    by (simp add: scenario_def shop_defs sm_defs ct_defs)
  ultimately show ?thesis by simp
qed

section \<open>Cart operations\<close>

lemma find_None_filter: "find P xs = None \<Longrightarrow> filter P xs = []"
  by (induction xs) (auto split: if_splits)

lemma find_None_filter_not: "find P xs = None \<Longrightarrow> filter (\<lambda>x. \<not> P x) xs = xs"
  by (induction xs) (auto split: if_splits)

lemma find_append_last: "find P xs = None \<Longrightarrow> P x \<Longrightarrow> find P (xs @ [x]) = Some x"
  by (induction xs) (auto split: if_splits)

lemma update_found_append_last:
  "find P xs = None \<Longrightarrow> P x \<Longrightarrow> update_found P f (xs @ [x]) = xs @ [f x]"
  by (induction xs) (auto split: if_splits)

lemma find_None_iff_image: "find (\<lambda>item. productId item = pid) xs = None \<longleftrightarrow> pid \<notin> productId ` set xs"
  by (induction xs) auto

lemma catalogue_keys_aux:
  "(\<And>k q. m0 k = Some q \<Longrightarrow> p_id q = k) \<Longrightarrow>
   foldl (\<lambda>m product. m(p_id product \<mapsto> product)) m0 ps pid = Some p \<Longrightarrow> p_id p = pid"
proof (induction ps arbitrary: m0)
  case Nil
  then show ?case by simp
next
  case (Cons a ps)
  show ?case
  proof (rule Cons.IH[of "m0(p_id a \<mapsto> a)"])
    fix k q assume "(m0(p_id a \<mapsto> a)) k = Some q"
    then show "p_id q = k" using Cons.prems(1) by (auto split: if_splits)
  next
    show "foldl (\<lambda>m product. m(p_id product \<mapsto> product)) (m0(p_id a \<mapsto> a)) ps pid = Some p"
      using Cons.prems(2) unfolding foldl_Cons .
  qed
qed

lemma new_SessionManager_keys:
  "products (new_SessionManager ps ttl) pid = Some p \<Longrightarrow> p_id p = pid"
  unfolding new_SessionManager_def using catalogue_keys_aux[of Map.empty ps pid p] by simp

text \<open>
  Claim C8, as amended. \<open>updateQuantity\<close> with quantity 0 is \<open>removeItem\<close>: same
  result and same manager, from every starting state. When the session is live and the
  product is absent from its cart, both succeed: the items are unchanged, the totals are
  recomputed from them, and the status is set to \<open>Pending\<close> if the cart is empty and
  kept otherwise. So the call changes nothing exactly when the totals already agree with
  the cart and the cart is non-empty or the status is already \<open>Pending\<close>.
\<close>

theorem updateQuantity_zero_is_removeItem:
  "updateQuantity now sid pid 0 m = removeItem now sid pid m
   \<and> (\<forall>s. sessions m sid = Some s \<and> now \<le> expiresAt s \<and> pid \<notin> productId ` set (items s) \<longrightarrow>
        removeItem now sid pid m =
          (let s' = (recalculateTotals s)\<lparr>status := (if items s = [] then Pending else status s)\<rparr>
           in (Inr s', m\<lparr>sessions := (sessions m)(sid \<mapsto> s')\<rparr>)))
   \<and> (\<forall>s. sessions m sid = Some s \<and> now \<le> expiresAt s \<and> pid \<notin> productId ` set (items s)
          \<and> totals (recalculateTotals s) = totals s \<and> (items s \<noteq> [] \<or> status s = Pending) \<longrightarrow>
        removeItem now sid pid m = (Inr s, m))"
proof (intro conjI allI impI)
  show "updateQuantity now sid pid 0 m = removeItem now sid pid m"
    by (simp add: updateQuantity_def)
next
  fix s
  assume a: "sessions m sid = Some s \<and> now \<le> expiresAt s \<and> pid \<notin> productId ` set (items s)"
  then have f: "filter (\<lambda>item. productId item \<noteq> pid) (items s) = items s"
    using find_None_filter_not[of "\<lambda>item. productId item = pid" "items s"]
    by (simp add: find_None_iff_image)
  have r: "(recalculateTotals s)\<lparr>status := status s\<rparr> = recalculateTotals s"
    by (simp add: recalculateTotals_def Let_def)
  show "removeItem now sid pid m =
          (let s' = (recalculateTotals s)\<lparr>status := (if items s = [] then Pending else status s)\<rparr>
           in (Inr s', m\<lparr>sessions := (sessions m)(sid \<mapsto> s')\<rparr>))"
    using a f r by (simp add: removeItem_def get_def Let_def)
next
  fix s
  assume a: "sessions m sid = Some s \<and> now \<le> expiresAt s \<and> pid \<notin> productId ` set (items s)
          \<and> totals (recalculateTotals s) = totals s \<and> (items s \<noteq> [] \<or> status s = Pending)"
  then have f: "filter (\<lambda>item. productId item \<noteq> pid) (items s) = items s"
    using find_None_filter_not[of "\<lambda>item. productId item = pid" "items s"]
    by (simp add: find_None_iff_image)
  from a have t: "recalculateTotals s = s"
    by (simp add: recalculateTotals_def Let_def)
  from a have u: "(sessions m)(sid \<mapsto> s) = sessions m" by (simp add: map_upd_triv)
  define s' where "s' = (recalculateTotals s)\<lparr>status := (if items s = [] then Pending else status s)\<rparr>"
  have r: "(recalculateTotals s)\<lparr>status := status s\<rparr> = recalculateTotals s"
    by (simp add: recalculateTotals_def Let_def)
  have rm: "removeItem now sid pid m = (Inr s', m\<lparr>sessions := (sessions m)(sid \<mapsto> s')\<rparr>)"
    unfolding s'_def using a f r by (simp add: removeItem_def get_def Let_def)
  have "s\<lparr>status := (if items s = [] then Pending else status s)\<rparr> = s"
    using a by (cases s) auto
  then have "s' = s" unfolding s'_def t .
  then show "removeItem now sid pid m = (Inr s, m)"
    using rm u by simp
qed

theorem updateQuantity_zero_is_removeItem_witness:
  "updateQuantity 5 ''cs_1'' ''B'' 0 cart_manager = removeItem 5 ''cs_1'' ''B'' cart_manager
   \<and> removeItem 5 ''cs_1'' ''B'' cart_manager
       = (Inr (the (sessions cart_manager ''cs_1'')), cart_manager)"
proof -
  have "sessions cart_manager ''cs_1'' = Some (the (sessions cart_manager ''cs_1''))
        \<and> 5 \<le> expiresAt (the (sessions cart_manager ''cs_1''))
        \<and> ''B'' \<notin> productId ` set (items (the (sessions cart_manager ''cs_1'')))
        \<and> totals (recalculateTotals (the (sessions cart_manager ''cs_1'')))
            = totals (the (sessions cart_manager ''cs_1''))
        \<and> (items (the (sessions cart_manager ''cs_1'')) \<noteq> []
             \<or> status (the (sessions cart_manager ''cs_1'')) = Pending)"
    by (simp add: cart_manager_def shop_defs sm_defs)
  with updateQuantity_zero_is_removeItem[of 5 "''cs_1''" "''B''" cart_manager]
  show ?thesis by blast
qed

text \<open>
  The claim's "no-op when the product is absent" fails on a cancelled session with an empty
  cart: removing an absent product puts the status back to \<open>Pending\<close>.
\<close>

theorem removeItem_absent_resets_status:
  "map_option status (sessions (sessionManager cancelled_shop) ''cs_1'') = Some Cancelled
   \<and> map_option items (sessions (sessionManager cancelled_shop) ''cs_1'') = Some []
   \<and> map_option status
        (sessions (snd (updateQuantity 2 ''cs_1'' ''A'' 0 (sessionManager cancelled_shop))) ''cs_1'')
       = Some Pending
   \<and> map_option status
        (sessions (snd (removeItem 2 ''cs_1'' ''A'' (sessionManager cancelled_shop))) ''cs_1'')
       = Some Pending"
  by (simp add: cancelled_shop_def shop_defs sm_defs ct_defs)

text \<open>
  Claim C5. The claim asks that a negative quantity be rejected with InvalidQuantity and
  the session left unchanged. The code of \<open>updateQuantity\<close> has no such check (unlike
  \<open>addItem\<close>, which rejects a quantity \<open>\<le> 0\<close>): on the session holding one unit
  of A, the quantity -3 is accepted and stored, and the subtotal becomes -5997.
\<close>

theorem updateQuantity_negative_accepted:
  "\<not> isl (fst (updateQuantity 5 ''cs_1'' ''A'' (- 3) cart_manager))
   \<and> map quantity (items (projr (fst (updateQuantity 5 ''cs_1'' ''A'' (- 3) cart_manager)))) = [- 3]
   \<and> subtotal (totals (projr (fst (updateQuantity 5 ''cs_1'' ''A'' (- 3) cart_manager)))) = - 5997
   \<and> map_option (\<lambda>s. map quantity (items s))
        (sessions (snd (updateQuantity 5 ''cs_1'' ''A'' (- 3) cart_manager)) ''cs_1'') = Some [- 3]"
  by (simp add: cart_manager_def shop_defs sm_defs)

lemma filter_single_find: "filter P xs = [it] \<Longrightarrow> find P xs = Some it"
  by (induction xs) (auto split: if_splits)

lemma update_found_single:
  "filter P xs = [it] \<Longrightarrow> update_found P f xs = map (\<lambda>x. if P x then f x else x) xs"
proof (induction xs)
  case Nil
  then show ?case by simp
next
  case (Cons x xs)
  show ?case
  proof (cases "P x")
    case True
    with Cons.prems have "filter P xs = []" by simp
    then have "\<forall>y \<in> set xs. \<not> P y" by (simp add: filter_empty_conv)
    then have "map (\<lambda>x. if P x then f x else x) xs = xs" by (induction xs) auto
    with True show ?thesis by simp
  next
    case False
    with Cons show ?thesis by simp
  qed
qed

lemma filter_map_update:
  "(\<And>x. P x \<Longrightarrow> P (f x)) \<Longrightarrow>
     filter P (map (\<lambda>x. if P x then f x else x) xs) = map f (filter P xs)"
  by (induction xs) auto

lemma filter_update_found_other:
  "(\<And>x. Q x \<Longrightarrow> \<not> P x \<and> \<not> P (f x)) \<Longrightarrow> filter P (update_found Q f xs) = filter P xs"
  by (induction xs) auto

lemma addItem_other_keeps:
  assumes s: "sessions m sid = Some s" and l: "now \<le> expiresAt s" and ne: "other \<noteq> pid"
    and k: "\<forall>p. products m other = Some p \<longrightarrow> p_id p \<noteq> pid"
  shows "\<exists>s'. sessions (snd (addItem now sid other qty m)) sid = Some s'
              \<and> expiresAt s' = expiresAt s
              \<and> filter (\<lambda>item. productId item = pid) (items s')
                   = filter (\<lambda>item. productId item = pid) (items s)
              \<and> products (snd (addItem now sid other qty m)) = products m"
proof -
  have g: "get now sid m = (Some s, m)" using s l by (simp add: get_def)
  have u: "\<And>f. filter (\<lambda>item. productId item = pid)
               (update_found (\<lambda>item. productId item = other)
                  (\<lambda>item. item\<lparr>quantity := f item\<rparr>) (items s))
             = filter (\<lambda>item. productId item = pid) (items s)"
    using ne by (intro filter_update_found_other) auto
  show ?thesis
    using s k u
    by (auto simp: addItem_def g Let_def recalculateTotals_def split: option.splits)
qed

lemma add_others_keeps:
  assumes "sessions m sid = Some s"
    and "\<forall>(t, other, q) \<in> set others.
           t \<le> expiresAt s \<and> other \<noteq> pid \<and> (\<forall>p. products m other = Some p \<longrightarrow> p_id p \<noteq> pid)"
  shows "\<exists>s'. sessions (add_others others sid m) sid = Some s'
              \<and> expiresAt s' = expiresAt s
              \<and> filter (\<lambda>item. productId item = pid) (items s')
                   = filter (\<lambda>item. productId item = pid) (items s)
              \<and> products (add_others others sid m) = products m"
  using assms
proof (induction others arbitrary: m s)
  case Nil
  then show ?case by simp
next
  case (Cons a others)
  obtain t other q where a: "a = (t, other, q)" by (cases a)
  from Cons.prems(2) a have h: "t \<le> expiresAt s" "other \<noteq> pid"
    "\<forall>p. products m other = Some p \<longrightarrow> p_id p \<noteq> pid" by auto
  from addItem_other_keeps[OF Cons.prems(1) h(1,2,3), of q]
  obtain s1 where s1: "sessions (snd (addItem t sid other q m)) sid = Some s1"
    "expiresAt s1 = expiresAt s"
    "filter (\<lambda>item. productId item = pid) (items s1)
       = filter (\<lambda>item. productId item = pid) (items s)"
    "products (snd (addItem t sid other q m)) = products m" by blast
  have r': "\<forall>(t', other', q') \<in> set others.
           t' \<le> expiresAt s1 \<and> other' \<noteq> pid
           \<and> (\<forall>p. products (snd (addItem t sid other q m)) other' = Some p \<longrightarrow> p_id p \<noteq> pid)"
    using Cons.prems(2) s1(2,4) by auto
  from Cons.IH[OF s1(1) r'] s1 a show ?case by auto
qed

text \<open>
  Claim C7. On a live session whose cart does not hold the product, a first successful
  \<open>addItem\<close> for it, then any number of \<open>addItem\<close> calls for other products (at any
  position of the cart, succeeding or failing), then a change of the catalogue and a second
  successful \<open>addItem\<close> for the product leave a single cart item for the product. Its
  quantity is the sum of the two quantities and its price, currency and name are those of
  the catalogue entry at the first call, whatever the catalogue holds at the second call.
  The second call changes nothing else in the cart: every other item and the order of the
  items stay as they were, and with no call in between the item is the last of the cart.
\<close>

theorem addItem_twice_merges:
  assumes "sessions m sid = Some s" and "now1 \<le> expiresAt s" and "now2 \<le> expiresAt s"
    and "find (\<lambda>item. productId item = pid) (items s) = None"
    and "products m pid = Some p1" and "p_id p1 = pid"
    and "0 < q1" and "0 < q2"
    and "\<forall>(t, other, q) \<in> set others.
           t \<le> expiresAt s \<and> other \<noteq> pid \<and> (\<forall>p. products m other = Some p \<longrightarrow> p_id p \<noteq> pid)"
    and "catalogue pid = Some p2"
  shows "\<exists>s1 s2 m2.
           sessions (add_others others sid (snd (addItem now1 sid pid q1 m))) sid = Some s1
         \<and> addItem now2 sid pid q2
              ((add_others others sid (snd (addItem now1 sid pid q1 m)))\<lparr>products := catalogue\<rparr>)
             = (Inr s2, m2)
         \<and> sessions m2 sid = Some s2
         \<and> filter (\<lambda>item. productId item = pid) (items s2)
             = [\<lparr>productId = pid, quantity = q1 + q2, price = p_price p1,
                 currency = p_currency p1, name = p_name p1\<rparr>]
         \<and> items s2 = map (\<lambda>item. if productId item = pid
                                     then item\<lparr>quantity := quantity item + q2\<rparr> else item)
                          (items s1)
         \<and> (others = [] \<longrightarrow>
               items s2 = items s @ [\<lparr>productId = pid, quantity = q1 + q2, price = p_price p1,
                                      currency = p_currency p1, name = p_name p1\<rparr>])"
proof -
  let ?P = "\<lambda>item. productId item = pid"
  let ?f = "\<lambda>item. item\<lparr>quantity := quantity item + q2\<rparr>"
  let ?new = "\<lparr>productId = pid, quantity = q1, price = p_price p1,
                currency = p_currency p1, name = p_name p1\<rparr>"
  let ?merged = "\<lparr>productId = pid, quantity = q1 + q2, price = p_price p1,
                currency = p_currency p1, name = p_name p1\<rparr>"
  define s0 where "s0 = (let t = recalculateTotals (s\<lparr>items := items s @ [?new]\<rparr>)
                         in if status t = Pending then t\<lparr>status := Ready\<rparr> else t)"
  define m0 where "m0 = m\<lparr>sessions := (sessions m)(sid \<mapsto> s0)\<rparr>"
  have i0: "items s0 = items s @ [?new]" by (simp add: s0_def Let_def)
  have e0: "expiresAt s0 = expiresAt s" by (simp add: s0_def Let_def recalculateTotals_def)
  have a0: "addItem now1 sid pid q1 m = (Inr s0, m0)"
    using assms(1,2,4,5,6,7) by (simp add: addItem_def get_def Let_def s0_def m0_def)
  have f0: "filter ?P (items s0) = [?new]"
    unfolding i0 using find_None_filter[OF assms(4)] by simp
  have st0: "sessions m0 sid = Some s0" and pr0: "products m0 = products m"
    by (simp_all add: m0_def)
  have oth: "\<forall>(t, other, q) \<in> set others.
           t \<le> expiresAt s0 \<and> other \<noteq> pid \<and> (\<forall>p. products m0 other = Some p \<longrightarrow> p_id p \<noteq> pid)"
    using assms(9) e0 pr0 by auto
  let ?M = "add_others others sid m0"
  from add_others_keeps[OF st0 oth]
  obtain s1 where s1: "sessions ?M sid = Some s1" "expiresAt s1 = expiresAt s0"
    "filter ?P (items s1) = filter ?P (items s0)" by blast
  have fl: "filter ?P (items s1) = [?new]" using s1(3) f0 by simp
  have fd: "find ?P (items s1) = Some ?new" by (rule filter_single_find[OF fl])
  have up: "update_found ?P ?f (items s1) = map (\<lambda>x. if ?P x then ?f x else x) (items s1)"
    by (rule update_found_single[OF fl])
  define s2 where "s2 = (let t = recalculateTotals (s1\<lparr>items := map (\<lambda>x. if ?P x then ?f x else x) (items s1)\<rparr>)
                         in if status t = Pending then t\<lparr>status := Ready\<rparr> else t)"
  define m2 where "m2 = ?M\<lparr>products := catalogue, sessions := (sessions ?M)(sid \<mapsto> s2)\<rparr>"
  have l2: "now2 \<le> expiresAt s1" using s1(2) e0 assms(3) by simp
  have ne: "items s1 \<noteq> []" using fl by auto
  have a2: "addItem now2 sid pid q2 (?M\<lparr>products := catalogue\<rparr>) = (Inr s2, m2)"
    using s1(1) l2 assms(8,10) fd up ne
    by (simp add: addItem_def get_def Let_def s2_def m2_def)
  have i2: "items s2 = map (\<lambda>x. if ?P x then ?f x else x) (items s1)"
    by (simp add: s2_def Let_def)
  have "filter ?P (items s2) = map ?f (filter ?P (items s1))"
    unfolding i2 by (rule filter_map_update) simp
  then have f2: "filter ?P (items s2) = [?merged]" using fl by simp
  have g2: "sessions m2 sid = Some s2" by (simp add: m2_def)
  have e: "others = [] \<longrightarrow> items s2 = items s @ [?merged]"
  proof
    assume "others = []"
    then have "s1 = s0" using s1(1) st0 by simp
    moreover have "\<forall>y \<in> set (items s). \<not> ?P y"
      using find_None_filter[OF assms(4)] by (simp add: filter_empty_conv)
    then have "map (\<lambda>x. if ?P x then ?f x else x) (items s) = items s"
      by (induction "items s") (auto simp: map_idI)
    ultimately show "items s2 = items s @ [?merged]" using i2 i0 by simp
  qed
  have M: "snd (addItem now1 sid pid q1 m) = m0" using a0 by simp
  show ?thesis unfolding M using s1(1) a2 g2 f2 i2 e by blast
qed

theorem addItem_twice_merges_witness:
  "map_option items
     (sessions (snd (addItem 3 ''cs_1'' ''A'' 3
        ((add_others [(2, ''B'', 1)] ''cs_1''
            (snd (addItem 1 ''cs_1'' ''A'' 2 (snd (create 0 ''cs_1'' (sessionManager shop))))))
           \<lparr>products := repriced\<rparr>))) ''cs_1'')
   = Some [\<lparr>productId = ''A'', quantity = 5, price = 1999, currency = USD, name = ''Product A''\<rparr>,
           \<lparr>productId = ''B'', quantity = 1, price = 2999, currency = USD, name = ''Product B''\<rparr>]
   \<and> map_option p_price (repriced ''A'') = Some 2500"
proof -
  let ?m = "snd (create 0 ''cs_1'' (sessionManager shop))"
  let ?s = "fst (create 0 ''cs_1'' (sessionManager shop))"
  let ?M = "add_others [(2, ''B'', 1)] ''cs_1'' (snd (addItem 1 ''cs_1'' ''A'' 2 ?m))"
  have h: "sessions ?m ''cs_1'' = Some ?s" "1 \<le> expiresAt ?s" "3 \<le> expiresAt ?s"
    "find (\<lambda>item. productId item = ''A'') (items ?s) = None"
    "products ?m ''A'' = Some product_A" "p_id product_A = ''A''" "(0::int) < 2" "(0::int) < 3"
    "\<forall>(t, other, q) \<in> set [(2, ''B'', 1::int)].
        t \<le> expiresAt ?s \<and> other \<noteq> ''A''
        \<and> (\<forall>p. products ?m other = Some p \<longrightarrow> p_id p \<noteq> ''A'')"
    "repriced ''A'' = Some (product_A\<lparr>p_price := 2500, p_currency := EUR\<rparr>)"
    by (simp_all add: shop_defs sm_defs repriced_def)
  from addItem_twice_merges[where catalogue = repriced and pid = "''A''" and m = ?m
      and ?now1.0 = 1 and ?now2.0 = 3 and ?q1.0 = 2 and ?q2.0 = 3
      and others = "[(2, ''B'', 1)]", OF h]
  obtain s1 s2 m2 where
    r: "sessions ?M ''cs_1'' = Some s1"
       "addItem 3 ''cs_1'' ''A'' 3 (?M\<lparr>products := repriced\<rparr>) = (Inr s2, m2)"
       "sessions m2 ''cs_1'' = Some s2"
       "items s2 = map (\<lambda>item. if productId item = ''A''
                                     then item\<lparr>quantity := quantity item + 3\<rparr> else item)
                          (items s1)"
    by blast
  have "map_option items (sessions ?M ''cs_1'')
          = Some [\<lparr>productId = ''A'', quantity = 2, price = 1999, currency = USD, name = ''Product A''\<rparr>,
                  \<lparr>productId = ''B'', quantity = 1, price = 2999, currency = USD, name = ''Product B''\<rparr>]"
    by (simp add: shop_defs sm_defs)
  with r(1) have "items s1
          = [\<lparr>productId = ''A'', quantity = 2, price = 1999, currency = USD, name = ''Product A''\<rparr>,
             \<lparr>productId = ''B'', quantity = 1, price = 2999, currency = USD, name = ''Product B''\<rparr>]"
    by simp
  with r show ?thesis by (simp add: product_A_def repriced_def)
qed

section \<open>Expiry\<close>

lemma get_expired:
  "sessions m sid = Some s \<Longrightarrow> expiresAt s < now \<Longrightarrow> get now sid m = (None, delete sid m)"
  by (simp add: get_def delete_def)

lemma get_live:
  "sessions m sid = Some s \<Longrightarrow> now \<le> expiresAt s \<Longrightarrow> get now sid m = (Some s, m)"
  by (simp add: get_def)

lemma get_missing: "sessions m sid = None \<Longrightarrow> get now sid m = (None, m)"
  by (simp add: get_def)

lemma updateStatus_live:
  "sessions m sid = Some s \<Longrightarrow> now \<le> expiresAt s \<Longrightarrow>
     updateStatus now sid st m
       = (Inr (s\<lparr>status := st\<rparr>), m\<lparr>sessions := (sessions m)(sid \<mapsto> s\<lparr>status := st\<rparr>)\<rparr>)"
  by (simp add: updateStatus_def get_live Let_def)

lemma updateStatus_gone:
  "sessions m sid = Some s \<Longrightarrow> expiresAt s < now \<Longrightarrow>
     updateStatus now sid st m = (Inl SessionNotFound, delete sid m)"
  by (simp add: updateStatus_def get_expired)

lemma uncaught_not_gone [simp]: "uncaught t \<noteq> SessionNotFound"
  by (cases t) simp_all

lemma processSharedPaymentToken_not_gone:
  "fst (processSharedPaymentToken s spt created confirmed) \<noteq> Inl SessionNotFound"
  by (auto simp: processSharedPaymentToken_def createPaymentIntent_def Let_def
        split: sum.splits Thrown.splits prod.splits option.splits)

lemma createSharedPaymentToken_not_gone:
  "fst (createSharedPaymentToken s pm cd method granted) \<noteq> Inl SessionNotFound"
  by (auto simp: createSharedPaymentToken_def Let_def
        split: sum.splits Thrown.splits prod.splits option.splits)

lemma createCheckoutSession_not_gone:
  "fst (createCheckoutSession s created) \<noteq> Inl SessionNotFound"
  by (auto simp: createCheckoutSession_def split: sum.splits Thrown.splits)

lemma createOrderFromSession_not_gone:
  "createOrderFromSession s pi oid paid created \<noteq> Inl SessionNotFound"
  by (auto simp: createOrderFromSession_def split: option.splits)

lemma on_catch_live:
  "sessions (sessionManager c) sid = Some s \<Longrightarrow> now_failed env \<le> expiresAt s \<Longrightarrow>
     on_catch env sid e c
       = (Inl e, c\<lparr>sessionManager := (sessionManager c)
                     \<lparr>sessions := (sessions (sessionManager c))(sid \<mapsto> s\<lparr>status := Failed\<rparr>)\<rparr>\<rparr>)"
  by (simp add: on_catch_def updateStatus_live)

lemma on_catch_fst:
  "(case sessions (sessionManager c) sid of None \<Rightarrow> False
    | Some s \<Rightarrow> now_failed env \<le> expiresAt s) \<Longrightarrow>
     fst (on_catch env sid e c) = Inl e"
  by (auto simp: on_catch_def updateStatus_def get_def Let_def split: option.splits)

lemma on_catch_stored:
  "(case sessions (sessionManager c) sid of None \<Rightarrow> False
    | Some s \<Rightarrow> now_failed env \<le> expiresAt s) \<Longrightarrow>
     map_option expiresAt (sessions (sessionManager (snd (on_catch env sid e c))) sid)
       = map_option expiresAt (sessions (sessionManager c) sid)"
  by (auto simp: on_catch_def updateStatus_def get_def Let_def split: option.splits)

lemma completeCheckout_live:
  assumes s: "sessions (sessionManager c) sid = Some s"
    and l1: "now_get env \<le> expiresAt s"
    and l2: "now_processing env \<le> expiresAt s"
    and l3: "now_completed env \<le> expiresAt s"
    and l4: "now_failed env \<le> expiresAt s"
  shows "fst (completeCheckout env sid spt c) \<noteq> Inl SessionNotFound
       \<and> map_option expiresAt (sessions (sessionManager (snd (completeCheckout env sid spt c))) sid)
           = Some (expiresAt s)"
proof -
  let ?m1 = "(sessionManager c)\<lparr>sessions := (sessions (sessionManager c))(sid \<mapsto> s\<lparr>status := Processing\<rparr>)\<rparr>"
  let ?m4 = "(sessionManager c)\<lparr>sessions := (sessions (sessionManager c))(sid \<mapsto> s\<lparr>status := Completed\<rparr>)\<rparr>"
  have u1: "updateStatus (now_processing env) sid Processing (sessionManager c)
              = (Inr (s\<lparr>status := Processing\<rparr>), ?m1)"
    by (rule updateStatus_live[OF s l2])
  have u2: "updateStatus (now_completed env) sid Completed ?m1 = (Inr (s\<lparr>status := Completed\<rparr>), ?m4)"
    using l3 by (simp add: updateStatus_def get_def Let_def)
  obtain r cs where p: "processSharedPaymentToken (s\<lparr>status := Processing\<rparr>) spt
                          (intent_created env) (intent_confirmed env) = (r, cs)"
    by (cases "processSharedPaymentToken (s\<lparr>status := Processing\<rparr>) spt
                          (intent_created env) (intent_confirmed env)")
  have pn: "r \<noteq> Inl SessionNotFound"
    using processSharedPaymentToken_not_gone[of "s\<lparr>status := Processing\<rparr>" spt
        "intent_created env" "intent_confirmed env"] p by simp
  show ?thesis
    using s pn l4 createOrderFromSession_not_gone
    by (simp add: completeCheckout_def get_live[OF s l1] u1 u2 p on_catch_fst on_catch_stored
          Let_def del: map_option_eq_Some split: sum.splits option.splits)
      (metis createOrderFromSession_not_gone)
qed

lemma live_session_manager:
  assumes s: "sessions m sid = Some s" and l: "now \<le> expiresAt s"
  shows "get now sid m = (Some s, m)"
    and "fst (addItem now sid pid qty m) \<noteq> Inl SessionNotFound"
    and "isl (fst (addItem now sid pid qty m)) \<longleftrightarrow> products m pid = None \<or> qty \<le> 0"
    and "map_option expiresAt (sessions (snd (addItem now sid pid qty m)) sid) = Some (expiresAt s)"
    and "\<not> isl (fst (removeItem now sid pid m))"
    and "map_option expiresAt (sessions (snd (removeItem now sid pid m)) sid) = Some (expiresAt s)"
    and "fst (updateQuantity now sid pid qty m) \<noteq> Inl SessionNotFound"
    and "isl (fst (updateQuantity now sid pid qty m))
           \<longleftrightarrow> qty \<noteq> 0 \<and> find (\<lambda>item. productId item = pid) (items s) = None"
    and "map_option expiresAt (sessions (snd (updateQuantity now sid pid qty m)) sid)
           = Some (expiresAt s)"
    and "setBuyer now sid b m
           = (Inr (recalculateTotals (s\<lparr>buyer := Some b\<rparr>)),
              m\<lparr>sessions := (sessions m)(sid \<mapsto> recalculateTotals (s\<lparr>buyer := Some b\<rparr>))\<rparr>)"
    and "updateStatus now sid st m
           = (Inr (s\<lparr>status := st\<rparr>), m\<lparr>sessions := (sessions m)(sid \<mapsto> s\<lparr>status := st\<rparr>)\<rparr>)"
    and "sessions (cleanup now m) sid = Some s"
proof -
  note g = get_live[OF s l]
  show "get now sid m = (Some s, m)" by (rule g)
  show "fst (addItem now sid pid qty m) \<noteq> Inl SessionNotFound"
    by (simp add: addItem_def g Let_def split: option.splits)
  show "isl (fst (addItem now sid pid qty m)) \<longleftrightarrow> products m pid = None \<or> qty \<le> 0"
    by (simp add: addItem_def g Let_def split: option.splits)
  show "map_option expiresAt (sessions (snd (addItem now sid pid qty m)) sid) = Some (expiresAt s)"
    using s by (simp add: addItem_def g Let_def recalculateTotals_def split: option.splits)
  show "\<not> isl (fst (removeItem now sid pid m))"
    by (simp add: removeItem_def g Let_def)
  show r: "map_option expiresAt (sessions (snd (removeItem now sid pid m)) sid) = Some (expiresAt s)"
    by (simp add: removeItem_def g Let_def recalculateTotals_def)
  show "fst (updateQuantity now sid pid qty m) \<noteq> Inl SessionNotFound"
    by (simp add: updateQuantity_def removeItem_def g Let_def split: option.splits)
  show "isl (fst (updateQuantity now sid pid qty m))
           \<longleftrightarrow> qty \<noteq> 0 \<and> find (\<lambda>item. productId item = pid) (items s) = None"
    by (simp add: updateQuantity_def removeItem_def g Let_def split: option.splits)
  show "map_option expiresAt (sessions (snd (updateQuantity now sid pid qty m)) sid)
           = Some (expiresAt s)"
    using s r by (simp add: updateQuantity_def g Let_def recalculateTotals_def split: option.splits)
  show "setBuyer now sid b m
           = (Inr (recalculateTotals (s\<lparr>buyer := Some b\<rparr>)),
              m\<lparr>sessions := (sessions m)(sid \<mapsto> recalculateTotals (s\<lparr>buyer := Some b\<rparr>))\<rparr>)"
    by (simp add: setBuyer_def g Let_def)
  show "updateStatus now sid st m
           = (Inr (s\<lparr>status := st\<rparr>), m\<lparr>sessions := (sessions m)(sid \<mapsto> s\<lparr>status := st\<rparr>)\<rparr>)"
    by (rule updateStatus_live[OF s l])
  show "sessions (cleanup now m) sid = Some s"
    using s l by (simp add: cleanup_def)
qed

lemma live_commerce:
  assumes s: "sessions (sessionManager c) sid = Some s" and l: "now \<le> expiresAt s"
  shows "getSession now sid c = (Some s, c)"
    and "fst (createPaymentToken now sid pm cardNumber expMonth expYear cvc method granted c)
           \<noteq> Inl SessionNotFound"
    and "sessionManager (snd (createPaymentToken now sid pm cardNumber expMonth expYear cvc
                                 method granted c)) = sessionManager c"
    and "fst (createPaymentLink now sid created c) \<noteq> Inl SessionNotFound"
    and "sessionManager (snd (createPaymentLink now sid created c)) = sessionManager c"
    and "now_cancelled \<le> expiresAt s \<Longrightarrow>
           fst (cancelCheckout now now_cancelled intent_cancelled sid c) \<noteq> Inl SessionNotFound"
    and "now_cancelled \<le> expiresAt s \<Longrightarrow>
           map_option expiresAt
             (sessions (sessionManager (snd (cancelCheckout now now_cancelled intent_cancelled sid c))) sid)
           = Some (expiresAt s)"
proof -
  note g = get_live[OF s l]
  show "getSession now sid c = (Some s, c)" by (simp add: getSession_def g)
  show "fst (createPaymentToken now sid pm cardNumber expMonth expYear cvc method granted c)
           \<noteq> Inl SessionNotFound"
    using createSharedPaymentToken_not_gone
    by (simp add: createPaymentToken_def g split: prod.splits) (metis fst_conv)
  show "sessionManager (snd (createPaymentToken now sid pm cardNumber expMonth expYear cvc
                                 method granted c)) = sessionManager c"
    by (simp add: createPaymentToken_def g split: prod.splits)
  show "fst (createPaymentLink now sid created c) \<noteq> Inl SessionNotFound"
    using createCheckoutSession_not_gone[of s created]
    by (auto simp: createPaymentLink_def g split: prod.splits sum.splits)
  show "sessionManager (snd (createPaymentLink now sid created c)) = sessionManager c"
    by (simp add: createPaymentLink_def g split: prod.splits sum.splits)
  show "now_cancelled \<le> expiresAt s \<Longrightarrow>
           fst (cancelCheckout now now_cancelled intent_cancelled sid c) \<noteq> Inl SessionNotFound"
    using updateStatus_live[OF s, of now_cancelled Cancelled]
    by (simp add: cancelCheckout_def g Let_def)
  show "now_cancelled \<le> expiresAt s \<Longrightarrow>
           map_option expiresAt
             (sessions (sessionManager (snd (cancelCheckout now now_cancelled intent_cancelled sid c))) sid)
           = Some (expiresAt s)"
    using updateStatus_live[OF s, of now_cancelled Cancelled] s
    by (simp add: cancelCheckout_def g Let_def)
qed

text \<open>
  Claim C4. For a stored session whose \<open>expiresAt\<close> lies strictly before the clock value
  of the call, every operation that takes the session id (get, addItem, removeItem,
  updateQuantity, setBuyer, updateStatus, getSession, createPaymentToken,
  createPaymentLink, completeCheckout, cancelCheckout) answers as for a missing session
  (\<open>None\<close> for the two lookups, the error SessionNotFound for the others) and leaves the
  store with the entry deleted; the sweep deletes it too. At any clock value up to and
  including \<open>expiresAt\<close> the session is reachable by every one of them: the two lookups
  return it, the sweep keeps it, no operation fails with SessionNotFound (addItem fails
  only for an unknown product or a quantity \<open>\<le> 0\<close>, updateQuantity only for a product
  that is not in the cart, removeItem never; setBuyer and updateStatus return the updated
  session), and the session is still stored afterwards. For the operations that look the
  session up more than once (completeCheckout, cancelCheckout) this holds when every
  lookup is at or before \<open>expiresAt\<close>.
\<close>

theorem expired_session_is_unreachable:
  assumes "sessions (sessionManager c) sid = Some s"
  shows "(expiresAt s < now \<longrightarrow>
            get now sid (sessionManager c) = (None, delete sid (sessionManager c))
          \<and> sessions (delete sid (sessionManager c)) sid = None
          \<and> addItem now sid pid qty (sessionManager c)
              = (Inl SessionNotFound, delete sid (sessionManager c))
          \<and> removeItem now sid pid (sessionManager c)
              = (Inl SessionNotFound, delete sid (sessionManager c))
          \<and> updateQuantity now sid pid qty (sessionManager c)
              = (Inl SessionNotFound, delete sid (sessionManager c))
          \<and> setBuyer now sid b (sessionManager c)
              = (Inl SessionNotFound, delete sid (sessionManager c))
          \<and> updateStatus now sid st (sessionManager c)
              = (Inl SessionNotFound, delete sid (sessionManager c))
          \<and> getSession now sid c = (None, c\<lparr>sessionManager := delete sid (sessionManager c)\<rparr>)
          \<and> createPaymentToken now sid pm cardNumber expMonth expYear cvc method granted c
              = (Inl SessionNotFound, c\<lparr>sessionManager := delete sid (sessionManager c)\<rparr>)
          \<and> createPaymentLink now sid created c
              = (Inl SessionNotFound, c\<lparr>sessionManager := delete sid (sessionManager c)\<rparr>)
          \<and> completeCheckout (env\<lparr>now_get := now\<rparr>) sid spt c
              = (Inl SessionNotFound, c\<lparr>sessionManager := delete sid (sessionManager c)\<rparr>)
          \<and> cancelCheckout now now_cancelled intent_cancelled sid c
              = (Inl SessionNotFound, c\<lparr>sessionManager := delete sid (sessionManager c)\<rparr>)
          \<and> sessions (cleanup now (sessionManager c)) sid = None)
       \<and> (now \<le> expiresAt s \<longrightarrow>
            get now sid (sessionManager c) = (Some s, sessionManager c)
          \<and> getSession now sid c = (Some s, c)
          \<and> sessions (cleanup now (sessionManager c)) sid = Some s
          \<and> fst (addItem now sid pid qty (sessionManager c)) \<noteq> Inl SessionNotFound
          \<and> (isl (fst (addItem now sid pid qty (sessionManager c)))
                \<longleftrightarrow> products (sessionManager c) pid = None \<or> qty \<le> 0)
          \<and> map_option expiresAt (sessions (snd (addItem now sid pid qty (sessionManager c))) sid)
              = Some (expiresAt s)
          \<and> \<not> isl (fst (removeItem now sid pid (sessionManager c)))
          \<and> map_option expiresAt (sessions (snd (removeItem now sid pid (sessionManager c))) sid)
              = Some (expiresAt s)
          \<and> fst (updateQuantity now sid pid qty (sessionManager c)) \<noteq> Inl SessionNotFound
          \<and> (isl (fst (updateQuantity now sid pid qty (sessionManager c)))
                \<longleftrightarrow> qty \<noteq> 0 \<and> find (\<lambda>item. productId item = pid) (items s) = None)
          \<and> map_option expiresAt
                (sessions (snd (updateQuantity now sid pid qty (sessionManager c))) sid)
              = Some (expiresAt s)
          \<and> setBuyer now sid b (sessionManager c)
              = (Inr (recalculateTotals (s\<lparr>buyer := Some b\<rparr>)),
                 (sessionManager c)\<lparr>sessions := (sessions (sessionManager c))
                    (sid \<mapsto> recalculateTotals (s\<lparr>buyer := Some b\<rparr>))\<rparr>)
          \<and> updateStatus now sid st (sessionManager c)
              = (Inr (s\<lparr>status := st\<rparr>),
                 (sessionManager c)\<lparr>sessions := (sessions (sessionManager c))
                    (sid \<mapsto> s\<lparr>status := st\<rparr>)\<rparr>)
          \<and> fst (createPaymentToken now sid pm cardNumber expMonth expYear cvc method granted c)
              \<noteq> Inl SessionNotFound
          \<and> sessionManager (snd (createPaymentToken now sid pm cardNumber expMonth expYear cvc
                                    method granted c)) = sessionManager c
          \<and> fst (createPaymentLink now sid created c) \<noteq> Inl SessionNotFound
          \<and> sessionManager (snd (createPaymentLink now sid created c)) = sessionManager c
          \<and> (now_cancelled \<le> expiresAt s \<longrightarrow>
                fst (cancelCheckout now now_cancelled intent_cancelled sid c) \<noteq> Inl SessionNotFound
              \<and> map_option expiresAt
                   (sessions (sessionManager
                      (snd (cancelCheckout now now_cancelled intent_cancelled sid c))) sid)
                  = Some (expiresAt s))
          \<and> (now_processing env \<le> expiresAt s \<and> now_completed env \<le> expiresAt s
                \<and> now_failed env \<le> expiresAt s \<longrightarrow>
                fst (completeCheckout (env\<lparr>now_get := now\<rparr>) sid spt c) \<noteq> Inl SessionNotFound
              \<and> map_option expiresAt
                   (sessions (sessionManager
                      (snd (completeCheckout (env\<lparr>now_get := now\<rparr>) sid spt c))) sid)
                  = Some (expiresAt s)))"
proof (intro conjI impI)
  assume e: "expiresAt s < now"
  note g = get_expired[OF assms e]
  show "get now sid (sessionManager c) = (None, delete sid (sessionManager c))" by (rule g)
  show "sessions (delete sid (sessionManager c)) sid = None" by (simp add: delete_def)
  show "addItem now sid pid qty (sessionManager c)
          = (Inl SessionNotFound, delete sid (sessionManager c))"
    by (simp add: addItem_def g)
  show "removeItem now sid pid (sessionManager c)
          = (Inl SessionNotFound, delete sid (sessionManager c))"
    by (simp add: removeItem_def g)
  then show "updateQuantity now sid pid qty (sessionManager c)
          = (Inl SessionNotFound, delete sid (sessionManager c))"
    by (simp add: updateQuantity_def g)
  show "setBuyer now sid b (sessionManager c)
          = (Inl SessionNotFound, delete sid (sessionManager c))"
    by (simp add: setBuyer_def g)
  show "updateStatus now sid st (sessionManager c)
          = (Inl SessionNotFound, delete sid (sessionManager c))"
    by (simp add: updateStatus_def g)
  show "getSession now sid c = (None, c\<lparr>sessionManager := delete sid (sessionManager c)\<rparr>)"
    by (simp add: getSession_def g)
  show "createPaymentToken now sid pm cardNumber expMonth expYear cvc method granted c
          = (Inl SessionNotFound, c\<lparr>sessionManager := delete sid (sessionManager c)\<rparr>)"
    by (simp add: createPaymentToken_def g)
  show "createPaymentLink now sid created c
          = (Inl SessionNotFound, c\<lparr>sessionManager := delete sid (sessionManager c)\<rparr>)"
    by (simp add: createPaymentLink_def g)
  show "completeCheckout (env\<lparr>now_get := now\<rparr>) sid spt c
          = (Inl SessionNotFound, c\<lparr>sessionManager := delete sid (sessionManager c)\<rparr>)"
    by (simp add: completeCheckout_def g)
  show "cancelCheckout now now_cancelled intent_cancelled sid c
          = (Inl SessionNotFound, c\<lparr>sessionManager := delete sid (sessionManager c)\<rparr>)"
    by (simp add: cancelCheckout_def g)
  show "sessions (cleanup now (sessionManager c)) sid = None"
    using assms e by (simp add: cleanup_def)
next
  assume l: "now \<le> expiresAt s"
  note sm = live_session_manager[OF assms l]
  note ct = live_commerce[OF assms l]
  show "get now sid (sessionManager c) = (Some s, sessionManager c)" by (rule sm(1))
  show "getSession now sid c = (Some s, c)" by (rule ct(1))
  show "sessions (cleanup now (sessionManager c)) sid = Some s" by (rule sm(12))
  show "fst (addItem now sid pid qty (sessionManager c)) \<noteq> Inl SessionNotFound" by (rule sm(2))
  show "isl (fst (addItem now sid pid qty (sessionManager c)))
          \<longleftrightarrow> products (sessionManager c) pid = None \<or> qty \<le> 0" by (rule sm(3))
  show "map_option expiresAt (sessions (snd (addItem now sid pid qty (sessionManager c))) sid)
          = Some (expiresAt s)" by (rule sm(4))
  show "\<not> isl (fst (removeItem now sid pid (sessionManager c)))" by (rule sm(5))
  show "map_option expiresAt (sessions (snd (removeItem now sid pid (sessionManager c))) sid)
          = Some (expiresAt s)" by (rule sm(6))
  show "fst (updateQuantity now sid pid qty (sessionManager c)) \<noteq> Inl SessionNotFound"
    by (rule sm(7))
  show "isl (fst (updateQuantity now sid pid qty (sessionManager c)))
          \<longleftrightarrow> qty \<noteq> 0 \<and> find (\<lambda>item. productId item = pid) (items s) = None" by (rule sm(8))
  show "map_option expiresAt
          (sessions (snd (updateQuantity now sid pid qty (sessionManager c))) sid)
          = Some (expiresAt s)" by (rule sm(9))
  show "setBuyer now sid b (sessionManager c)
          = (Inr (recalculateTotals (s\<lparr>buyer := Some b\<rparr>)),
             (sessionManager c)\<lparr>sessions := (sessions (sessionManager c))
                (sid \<mapsto> recalculateTotals (s\<lparr>buyer := Some b\<rparr>))\<rparr>)" by (rule sm(10))
  show "updateStatus now sid st (sessionManager c)
          = (Inr (s\<lparr>status := st\<rparr>),
             (sessionManager c)\<lparr>sessions := (sessions (sessionManager c))
                (sid \<mapsto> s\<lparr>status := st\<rparr>)\<rparr>)" by (rule sm(11))
  show "fst (createPaymentToken now sid pm cardNumber expMonth expYear cvc method granted c)
          \<noteq> Inl SessionNotFound" by (rule ct(2))
  show "sessionManager (snd (createPaymentToken now sid pm cardNumber expMonth expYear cvc
                                method granted c)) = sessionManager c" by (rule ct(3))
  show "fst (createPaymentLink now sid created c) \<noteq> Inl SessionNotFound" by (rule ct(4))
  show "sessionManager (snd (createPaymentLink now sid created c)) = sessionManager c"
    by (rule ct(5))
next
  assume l: "now \<le> expiresAt s" and l2: "now_cancelled \<le> expiresAt s"
  note ct = live_commerce[OF assms l]
  show "fst (cancelCheckout now now_cancelled intent_cancelled sid c) \<noteq> Inl SessionNotFound"
    by (rule ct(6)[OF l2])
  show "map_option expiresAt
          (sessions (sessionManager
             (snd (cancelCheckout now now_cancelled intent_cancelled sid c))) sid)
          = Some (expiresAt s)" by (rule ct(7)[OF l2])
next
  assume l: "now \<le> expiresAt s"
    and l2: "now_processing env \<le> expiresAt s \<and> now_completed env \<le> expiresAt s
                \<and> now_failed env \<le> expiresAt s"
  have cl: "fst (completeCheckout (env\<lparr>now_get := now\<rparr>) sid spt c) \<noteq> Inl SessionNotFound
       \<and> map_option expiresAt
           (sessions (sessionManager (snd (completeCheckout (env\<lparr>now_get := now\<rparr>) sid spt c))) sid)
           = Some (expiresAt s)"
    using l l2 by (intro completeCheckout_live[OF assms]) simp_all
  then show "fst (completeCheckout (env\<lparr>now_get := now\<rparr>) sid spt c) \<noteq> Inl SessionNotFound"
    and "map_option expiresAt
           (sessions (sessionManager (snd (completeCheckout (env\<lparr>now_get := now\<rparr>) sid spt c))) sid)
           = Some (expiresAt s)"
    by simp_all
qed

theorem expired_session_is_unreachable_witness:
  "map_option expiresAt (sessions (sessionManager cart_shop) ''cs_1'') = Some 3600000
   \<and> get 3600001 ''cs_1'' (sessionManager cart_shop) = (None, delete ''cs_1'' (sessionManager cart_shop))
   \<and> fst (addItem 3600001 ''cs_1'' ''A'' 1 (sessionManager cart_shop)) = Inl SessionNotFound
   \<and> sessions (snd (addItem 3600001 ''cs_1'' ''A'' 1 (sessionManager cart_shop))) ''cs_1'' = None
   \<and> fst (completeCheckout (charge_ok\<lparr>now_get := 3600001\<rparr>) ''cs_1'' ''spt_1'' cart_shop)
       = Inl SessionNotFound
   \<and> fst (get 3600000 ''cs_1'' (sessionManager cart_shop))
       = sessions (sessionManager cart_shop) ''cs_1''
   \<and> \<not> isl (fst (addItem 3600000 ''cs_1'' ''A'' 1 (sessionManager cart_shop)))
   \<and> fst (getSession 3600000 ''cs_1'' cart_shop) = sessions (sessionManager cart_shop) ''cs_1''
   \<and> sessions (cleanup 3600000 (sessionManager cart_shop)) ''cs_1''
       = sessions (sessionManager cart_shop) ''cs_1''
   \<and> sessions (cleanup 3600001 (sessionManager cart_shop)) ''cs_1'' = None"
proof -
  let ?s = "the (sessions (sessionManager cart_shop) ''cs_1'')"
  have h: "sessions (sessionManager cart_shop) ''cs_1'' = Some ?s"
    and e: "expiresAt ?s = 3600000"
    and pr: "products (sessionManager cart_shop) ''A'' \<noteq> None"
    by (simp_all add: cart_shop_def cart_manager_def shop_defs sm_defs)
  have lt: "expiresAt ?s < 3600001" and le: "3600000 \<le> expiresAt ?s" using e by simp_all
  note t1 = expired_session_is_unreachable[OF h, of 3600001 "''A''" 1 _ _ _ _ _ _ _ _ _ _ charge_ok "''spt_1''"]
  note t2 = expired_session_is_unreachable[OF h, of 3600000 "''A''" 1]
  from t1 lt have a: "get 3600001 ''cs_1'' (sessionManager cart_shop) = (None, delete ''cs_1'' (sessionManager cart_shop))"
    and b: "addItem 3600001 ''cs_1'' ''A'' 1 (sessionManager cart_shop)
              = (Inl SessionNotFound, delete ''cs_1'' (sessionManager cart_shop))"
    and d: "completeCheckout (charge_ok\<lparr>now_get := 3600001\<rparr>) ''cs_1'' ''spt_1'' cart_shop
              = (Inl SessionNotFound, cart_shop\<lparr>sessionManager := delete ''cs_1'' (sessionManager cart_shop)\<rparr>)"
    and k: "sessions (cleanup 3600001 (sessionManager cart_shop)) ''cs_1'' = None"
    by blast+
  from t2 le have g: "get 3600000 ''cs_1'' (sessionManager cart_shop) = (Some ?s, sessionManager cart_shop)"
    and gs: "getSession 3600000 ''cs_1'' cart_shop = (Some ?s, cart_shop)"
    and cu: "sessions (cleanup 3600000 (sessionManager cart_shop)) ''cs_1'' = Some ?s"
    and ai: "isl (fst (addItem 3600000 ''cs_1'' ''A'' 1 (sessionManager cart_shop)))
                \<longleftrightarrow> products (sessionManager cart_shop) ''A'' = None \<or> (1::int) \<le> 0"
    by blast+
  have c0: "map_option expiresAt (sessions (sessionManager cart_shop) ''cs_1'') = Some 3600000"
    by (simp add: cart_shop_def cart_manager_def shop_defs sm_defs)
  have g': "fst (get 3600000 ''cs_1'' (sessionManager cart_shop))
       = sessions (sessionManager cart_shop) ''cs_1''" using g h by simp
  have gs': "fst (getSession 3600000 ''cs_1'' cart_shop) = sessions (sessionManager cart_shop) ''cs_1''"
    using gs h by simp
  have cu': "sessions (cleanup 3600000 (sessionManager cart_shop)) ''cs_1''
       = sessions (sessionManager cart_shop) ''cs_1''" using cu h by simp
  have ai': "\<not> isl (fst (addItem 3600000 ''cs_1'' ''A'' 1 (sessionManager cart_shop)))"
    using ai pr by simp
  show ?thesis using a b d g' c0 gs' cu' ai' k by (simp add: delete_def)
qed

section \<open>Completing a checkout\<close>

lemma order_of_id [simp]: "o_id (order_of env s pi) = order_id env"
  by (simp add: order_of_def)

lemma completeCheckout_paid:
  assumes s: "sessions (sessionManager c) sid = Some s"
    and l1: "now_get env \<le> expiresAt s"
    and l2: "now_processing env \<le> expiresAt s"
    and l3: "now_completed env \<le> expiresAt s"
    and it: "items s \<noteq> []"
    and em: "has_email (buyer s)"
    and p: "processSharedPaymentToken (s\<lparr>status := Processing\<rparr>) spt
               (intent_created env) (intent_confirmed env) = (Inr pi, cs)"
    and ok: "pi_status pi = ''succeeded''"
  shows "completeCheckout env sid spt c =
           (case purchase_hook env of
              None \<Rightarrow> (Inr (order_of env s pi), after_payment env sid s pi cs c)
            | Some msg \<Rightarrow> on_catch env sid (Foreign msg) (after_payment env sid s pi cs c))"
proof -
  obtain b where b: "buyer s = Some b" using em by (auto simp: has_email_def split: option.splits)
  let ?m1 = "(sessionManager c)\<lparr>sessions := (sessions (sessionManager c))(sid \<mapsto> s\<lparr>status := Processing\<rparr>)\<rparr>"
  have u1: "updateStatus (now_processing env) sid Processing (sessionManager c)
              = (Inr (s\<lparr>status := Processing\<rparr>), ?m1)"
    by (rule updateStatus_live[OF s l2])
  have u2: "updateStatus (now_completed env) sid Completed ?m1
              = (Inr (s\<lparr>status := Completed\<rparr>),
                 (sessionManager c)\<lparr>sessions := (sessions (sessionManager c))(sid \<mapsto> s\<lparr>status := Completed\<rparr>)\<rparr>)"
    using l3 by (simp add: updateStatus_def get_def Let_def)
  have o: "createOrderFromSession (s\<lparr>status := Processing\<rparr>) pi (order_id env)
             (now_paidAt env) (now_createdAt env) = Inr (order_of env s pi)"
    using b ok by (simp add: createOrderFromSession_def order_of_def)
  have r: "c\<lparr>sessionManager := ?m1, calls := calls c @ cs,
             orders := (orders c)(order_id env \<mapsto> order_of env s pi),
             sessionManager := (sessionManager c)\<lparr>sessions :=
                (sessions (sessionManager c))(sid \<mapsto> s\<lparr>status := Completed\<rparr>)\<rparr>,
             calls := (calls c @ cs) @ [OnPurchase (order_of env s pi)]\<rparr>
           = after_payment env sid s pi cs c"
    by (simp add: after_payment_def)
  have "completeCheckout env sid spt c =
           (case purchase_hook env of
              None \<Rightarrow> (Inr (order_of env s pi),
                 c\<lparr>sessionManager := ?m1, calls := calls c @ cs,
                   orders := (orders c)(order_id env \<mapsto> order_of env s pi),
                   sessionManager := (sessionManager c)\<lparr>sessions :=
                      (sessions (sessionManager c))(sid \<mapsto> s\<lparr>status := Completed\<rparr>)\<rparr>,
                   calls := (calls c @ cs) @ [OnPurchase (order_of env s pi)]\<rparr>)
            | Some msg \<Rightarrow> on_catch env sid (Foreign msg)
                (c\<lparr>sessionManager := ?m1, calls := calls c @ cs,
                   orders := (orders c)(order_id env \<mapsto> order_of env s pi),
                   sessionManager := (sessionManager c)\<lparr>sessions :=
                      (sessions (sessionManager c))(sid \<mapsto> s\<lparr>status := Completed\<rparr>)\<rparr>,
                   calls := (calls c @ cs) @ [OnPurchase (order_of env s pi)]\<rparr>))"
    using it em
    by (simp add: completeCheckout_def get_live[OF s l1] u1 p ok o u2 Let_def
          split: option.splits)
  then show ?thesis unfolding r .
qed

lemma on_catch_isl: "isl (fst (on_catch env sid e c))"
  by (auto simp: on_catch_def split: prod.splits sum.splits)

lemma charge_accepted_status [simp]:
  "charge_accepted (s\<lparr>status := st\<rparr>) env = charge_accepted s env"
  by (simp add: charge_accepted_def)

lemma processSharedPaymentToken_accepted:
  "items s \<noteq> [] \<Longrightarrow> charge_accepted s env \<Longrightarrow>
     fst (processSharedPaymentToken s spt (intent_created env) (intent_confirmed env))
       = Inr (projr (intent_confirmed env))"
  by (auto simp: charge_accepted_def processSharedPaymentToken_def createPaymentIntent_def Let_def
        split: sum.splits Thrown.splits option.splits prod.splits)

lemma processSharedPaymentToken_refused:
  "items s \<noteq> [] \<Longrightarrow> \<not> charge_accepted s env \<Longrightarrow>
     processSharedPaymentToken s spt (intent_created env) (intent_confirmed env) = (Inr pi, cs) \<Longrightarrow>
     pi_status pi \<noteq> ''succeeded''"
  by (auto simp: charge_accepted_def processSharedPaymentToken_def createPaymentIntent_def Let_def
        split: sum.splits Thrown.splits option.splits prod.splits if_splits)

lemma completeCheckout_refused:
  assumes s: "sessions (sessionManager c) sid = Some s"
    and l1: "now_get env \<le> expiresAt s"
    and l2: "now_processing env \<le> expiresAt s"
    and it: "items s \<noteq> []"
    and na: "\<not> charge_accepted s env"
  shows "isl (fst (completeCheckout env sid spt c))"
proof -
  let ?m1 = "(sessionManager c)\<lparr>sessions := (sessions (sessionManager c))(sid \<mapsto> s\<lparr>status := Processing\<rparr>)\<rparr>"
  have u1: "updateStatus (now_processing env) sid Processing (sessionManager c)
              = (Inr (s\<lparr>status := Processing\<rparr>), ?m1)"
    by (rule updateStatus_live[OF s l2])
  obtain r cs where p: "processSharedPaymentToken (s\<lparr>status := Processing\<rparr>) spt
                          (intent_created env) (intent_confirmed env) = (r, cs)"
    by (cases "processSharedPaymentToken (s\<lparr>status := Processing\<rparr>) spt
                          (intent_created env) (intent_confirmed env)")
  have ns: "\<And>pi. r = Inr pi \<Longrightarrow> pi_status pi \<noteq> ''succeeded''"
    using processSharedPaymentToken_refused[of "s\<lparr>status := Processing\<rparr>" env spt _ cs] it na p
    by simp
  show ?thesis
    using ns
    by (auto simp: completeCheckout_def get_live[OF s l1] u1 p on_catch_isl Let_def
          split: sum.splits)
qed

text \<open>
  Claim C2, as amended. \<open>completeCheckout\<close> looks neither at the status of the session
  nor at the stored orders. On every session that is live at its lookups, whatever its
  status (also \<open>Completed\<close>) and whatever orders exist already, the call succeeds exactly
  when the cart is non-empty, the buyer has an email, the charge is accepted
  (\<open>charge_accepted\<close>) and the callback returns. It then produces an order under the newly
  generated order id for that session, stores it beside the orders already there, and sets
  the status to \<open>Completed\<close>. In every other case it fails; in particular, with no payment
  intent recorded and a total that is not positive it fails with TotalNotPositive before
  any call to the gateway, and no order is stored.
\<close>

theorem completeCheckout_repeats:
  assumes "sessions (sessionManager c) sid = Some s"
    and "now_get env \<le> expiresAt s"
    and "now_processing env \<le> expiresAt s"
    and "now_completed env \<le> expiresAt s"
  shows "(items s \<noteq> [] \<and> has_email (buyer s) \<and> charge_accepted s env
            \<and> purchase_hook env = None \<longrightarrow>
          (\<exists>order c'. completeCheckout env sid spt c = (Inr order, c')
             \<and> o_id order = order_id env \<and> sessionId order = s_id s
             \<and> orders c' = (orders c)(order_id env \<mapsto> order)
             \<and> map_option status (sessions (sessionManager c') sid) = Some Completed))
       \<and> (isl (fst (completeCheckout env sid spt c))
            \<longleftrightarrow> items s = [] \<or> \<not> has_email (buyer s) \<or> \<not> charge_accepted s env
                 \<or> purchase_hook env \<noteq> None)
       \<and> (items s \<noteq> [] \<and> has_email (buyer s) \<and> total (totals s) \<le> 0
            \<and> \<not> truthy_string (case payment s of None \<Rightarrow> None
                                    | Some p \<Rightarrow> stripePaymentIntentId p)
            \<and> now_failed env \<le> expiresAt s \<longrightarrow>
          fst (completeCheckout env sid spt c) = Inl TotalNotPositive
          \<and> calls (snd (completeCheckout env sid spt c)) = calls c
          \<and> orders (snd (completeCheckout env sid spt c)) = orders c)"
proof -
  let ?pi = "projr (intent_confirmed env)"
  have good: "completeCheckout env sid spt c
                = (case purchase_hook env of
                     None \<Rightarrow> (Inr (order_of env s ?pi),
                               after_payment env sid s ?pi
                                 (snd (processSharedPaymentToken (s\<lparr>status := Processing\<rparr>) spt
                                        (intent_created env) (intent_confirmed env))) c)
                   | Some msg \<Rightarrow> on_catch env sid (Foreign msg)
                               (after_payment env sid s ?pi
                                 (snd (processSharedPaymentToken (s\<lparr>status := Processing\<rparr>) spt
                                        (intent_created env) (intent_confirmed env))) c))"
    if h: "items s \<noteq> []" "has_email (buyer s)" "charge_accepted s env"
  proof -
    have f: "fst (processSharedPaymentToken (s\<lparr>status := Processing\<rparr>) spt
               (intent_created env) (intent_confirmed env)) = Inr ?pi"
      using processSharedPaymentToken_accepted[of "s\<lparr>status := Processing\<rparr>" env spt] h by simp
    then have p: "processSharedPaymentToken (s\<lparr>status := Processing\<rparr>) spt
               (intent_created env) (intent_confirmed env)
               = (Inr ?pi, snd (processSharedPaymentToken (s\<lparr>status := Processing\<rparr>) spt
               (intent_created env) (intent_confirmed env)))"
      by (metis prod.collapse)
    have ok: "pi_status ?pi = ''succeeded''" using h(3) by (simp add: charge_accepted_def)
    show ?thesis by (rule completeCheckout_paid[OF assms(1-4) h(1,2) p ok])
  qed
  have part1: "items s \<noteq> [] \<and> has_email (buyer s) \<and> charge_accepted s env
            \<and> purchase_hook env = None \<longrightarrow>
          (\<exists>order c'. completeCheckout env sid spt c = (Inr order, c')
             \<and> o_id order = order_id env \<and> sessionId order = s_id s
             \<and> orders c' = (orders c)(order_id env \<mapsto> order)
             \<and> map_option status (sessions (sessionManager c') sid) = Some Completed)"
  proof
    assume a: "items s \<noteq> [] \<and> has_email (buyer s) \<and> charge_accepted s env
            \<and> purchase_hook env = None"
    then have "completeCheckout env sid spt c
                = (Inr (order_of env s ?pi),
                   after_payment env sid s ?pi
                     (snd (processSharedPaymentToken (s\<lparr>status := Processing\<rparr>) spt
                            (intent_created env) (intent_confirmed env))) c)"
      using good by simp
    then show "\<exists>order c'. completeCheckout env sid spt c = (Inr order, c')
             \<and> o_id order = order_id env \<and> sessionId order = s_id s
             \<and> orders c' = (orders c)(order_id env \<mapsto> order)
             \<and> map_option status (sessions (sessionManager c') sid) = Some Completed"
      by (simp add: order_of_def after_payment_def)
  qed
  have part2: "isl (fst (completeCheckout env sid spt c))
            \<longleftrightarrow> items s = [] \<or> \<not> has_email (buyer s) \<or> \<not> charge_accepted s env
                 \<or> purchase_hook env \<noteq> None"
  proof (cases "items s \<noteq> [] \<and> has_email (buyer s) \<and> charge_accepted s env")
    case True
    then show ?thesis using good on_catch_isl by (auto split: option.splits)
  next
    case False
    have "isl (fst (completeCheckout env sid spt c))"
    proof (cases "items s = []")
      case True
      then show ?thesis by (simp add: completeCheckout_def get_live[OF assms(1,2)])
    next
      case it: False
      show ?thesis
      proof (cases "has_email (buyer s)")
        case True
        with False it have "\<not> charge_accepted s env" by simp
        then show ?thesis by (rule completeCheckout_refused[OF assms(1-3) it])
      next
        case False
        then show ?thesis using it by (simp add: completeCheckout_def get_live[OF assms(1,2)])
      qed
    qed
    then show ?thesis using False by auto
  qed
  have part3: "items s \<noteq> [] \<and> has_email (buyer s) \<and> total (totals s) \<le> 0
            \<and> \<not> truthy_string (case payment s of None \<Rightarrow> None
                                    | Some p \<Rightarrow> stripePaymentIntentId p)
            \<and> now_failed env \<le> expiresAt s \<longrightarrow>
          fst (completeCheckout env sid spt c) = Inl TotalNotPositive
          \<and> calls (snd (completeCheckout env sid spt c)) = calls c
          \<and> orders (snd (completeCheckout env sid spt c)) = orders c"
  proof
    assume a: "items s \<noteq> [] \<and> has_email (buyer s) \<and> total (totals s) \<le> 0
            \<and> \<not> truthy_string (case payment s of None \<Rightarrow> None
                                    | Some p \<Rightarrow> stripePaymentIntentId p)
            \<and> now_failed env \<le> expiresAt s"
    have p: "processSharedPaymentToken (s\<lparr>status := Processing\<rparr>) spt
               (intent_created env) (intent_confirmed env) = (Inl TotalNotPositive, [])"
      using a by (simp add: processSharedPaymentToken_def createPaymentIntent_def Let_def)
    show "fst (completeCheckout env sid spt c) = Inl TotalNotPositive
          \<and> calls (snd (completeCheckout env sid spt c)) = calls c
          \<and> orders (snd (completeCheckout env sid spt c)) = orders c"
    proof -
      let ?c1 = "c\<lparr>sessionManager := (sessionManager c)
                   \<lparr>sessions := (sessions (sessionManager c))(sid \<mapsto> s\<lparr>status := Processing\<rparr>)\<rparr>\<rparr>"
      have cc: "completeCheckout env sid spt c = on_catch env sid TotalNotPositive ?c1"
        using a
        by (simp add: completeCheckout_def get_live[OF assms(1,2)]
              updateStatus_live[OF assms(1,3)] p)
      have "on_catch env sid TotalNotPositive ?c1
              = (Inl TotalNotPositive,
                 ?c1\<lparr>sessionManager := (sessionManager ?c1)
                    \<lparr>sessions := (sessions (sessionManager ?c1))
                       (sid \<mapsto> s\<lparr>status := Processing\<rparr>\<lparr>status := Failed\<rparr>)\<rparr>\<rparr>)"
        using a by (intro on_catch_live) simp_all
      with cc show ?thesis by simp
    qed
  qed
  from part1 part2 part3 show ?thesis by blast
qed

theorem completeCheckout_repeats_witness:
  "map_option status (sessions (sessionManager paid_shop) ''cs_1'') = Some Completed
   \<and> map_option sessionId (orders paid_shop ''ord_1'') = Some ''cs_1''
   \<and> \<not> isl (fst (completeCheckout charge_again ''cs_1'' ''spt_1'' paid_shop))
   \<and> map_option sessionId
        (orders (snd (completeCheckout charge_again ''cs_1'' ''spt_1'' paid_shop)) ''ord_2'')
       = Some ''cs_1''
   \<and> fst (completeCheckout charge_ok ''cs_1'' ''spt_1'' free_shop) = Inl TotalNotPositive
   \<and> calls (snd (completeCheckout charge_ok ''cs_1'' ''spt_1'' free_shop)) = []"
proof -
  let ?s = "the (sessions (sessionManager paid_shop) ''cs_1'')"
  have h: "sessions (sessionManager paid_shop) ''cs_1'' = Some ?s"
    "now_get charge_again \<le> expiresAt ?s"
    "now_processing charge_again \<le> expiresAt ?s"
    "now_completed charge_again \<le> expiresAt ?s"
    by (simp_all add: paid_shop_def ready_shop_def cart_shop_def cart_manager_def charge_ok_def
          charge_again_def shop_defs sm_defs ct_defs)
  have g: "items ?s \<noteq> [] \<and> has_email (buyer ?s) \<and> charge_accepted ?s charge_again
            \<and> purchase_hook charge_again = None"
    by (simp add: paid_shop_def ready_shop_def cart_shop_def cart_manager_def charge_ok_def
          charge_again_def charge_accepted_def shop_defs sm_defs ct_defs)
  from completeCheckout_repeats[OF h, of "''spt_1''"] g
  obtain order c' where
    r: "completeCheckout charge_again ''cs_1'' ''spt_1'' paid_shop = (Inr order, c')"
       "o_id order = order_id charge_again" "sessionId order = s_id ?s"
       "orders c' = (orders paid_shop)(order_id charge_again \<mapsto> order)"
    by blast
  have a: "map_option status (sessions (sessionManager paid_shop) ''cs_1'') = Some Completed"
    "map_option sessionId (orders paid_shop ''ord_1'') = Some ''cs_1''"
    "s_id ?s = ''cs_1''"
    by (simp_all add: paid_shop_def ready_shop_def cart_shop_def cart_manager_def charge_ok_def
          shop_defs sm_defs ct_defs)
  let ?f = "the (sessions (sessionManager free_shop) ''cs_1'')"
  have hf: "sessions (sessionManager free_shop) ''cs_1'' = Some ?f"
    "now_get charge_ok \<le> expiresAt ?f"
    "now_processing charge_ok \<le> expiresAt ?f"
    "now_completed charge_ok \<le> expiresAt ?f"
    by (simp_all add: free_shop_def free_product_def charge_ok_def alice_def
          new_CommerceTools_def sm_defs ct_defs)
  have gf: "items ?f \<noteq> [] \<and> has_email (buyer ?f) \<and> total (totals ?f) \<le> 0
            \<and> \<not> truthy_string (case payment ?f of None \<Rightarrow> None
                                    | Some p \<Rightarrow> stripePaymentIntentId p)
            \<and> now_failed charge_ok \<le> expiresAt ?f"
    "calls free_shop = []"
    by (simp_all add: free_shop_def free_product_def charge_ok_def alice_def
          new_CommerceTools_def sm_defs ct_defs)
  from completeCheckout_repeats[OF hf, of "''spt_1''"] gf
  have f: "fst (completeCheckout charge_ok ''cs_1'' ''spt_1'' free_shop) = Inl TotalNotPositive"
    "calls (snd (completeCheckout charge_ok ''cs_1'' ''spt_1'' free_shop)) = []"
    by simp_all
  show ?thesis using r a f by (simp add: charge_again_def)
qed

text \<open>
  The claim's "at most one order per session" fails: after a first successful completion
  of session cs_1 (order ord_1), a second completion that the gateway accepts succeeds too
  and stores ord_2 for the same session.
\<close>

theorem second_order_for_one_session:
  "map_option status (sessions (sessionManager paid_shop) ''cs_1'') = Some Completed
   \<and> map_option sessionId (orders paid_shop ''ord_1'') = Some ''cs_1''
   \<and> \<not> isl (fst (completeCheckout charge_again ''cs_1'' ''spt_1'' paid_shop))
   \<and> o_id (projr (fst (completeCheckout charge_again ''cs_1'' ''spt_1'' paid_shop))) = ''ord_2''
   \<and> map_option sessionId
        (orders (snd (completeCheckout charge_again ''cs_1'' ''spt_1'' paid_shop)) ''ord_1'')
       = Some ''cs_1''
   \<and> map_option sessionId
        (orders (snd (completeCheckout charge_again ''cs_1'' ''spt_1'' paid_shop)) ''ord_2'')
       = Some ''cs_1''"
  by (simp add: paid_shop_def ready_shop_def cart_shop_def cart_manager_def charge_ok_def
        charge_again_def shop_defs sm_defs ct_defs)

lemmas world_defs = cart_shop_def cart_manager_def ready_shop_def paid_shop_def
  processing_shop_def charge_ok_def charge_again_def hook_fails_def link_ok_def
  cancelled_shop_def

text \<open>
  Claim C3, as amended. A session whose status is already \<open>Processing\<close> is treated like
  any other live session with a non-empty cart and a buyer email: neither completion
  strategy looks at the status. \<open>createPaymentLink\<close> asks the gateway for a hosted
  checkout session and returns what the gateway answers; \<open>completeCheckout\<close> submits the
  token to the gateway and, when the gateway confirms the payment as succeeded and the
  callback returns, returns the order. With no payment intent recorded on the session and
  a positive total, the submission consists of a new payment intent and its confirmation.
\<close>

theorem processing_session_is_charged_again:
  assumes "sessions (sessionManager c) sid = Some s"
    and "status s = Processing"
    and "now \<le> expiresAt s"
    and "items s \<noteq> []"
    and "has_email (buyer s)"
  shows "createPaymentLink now sid created c =
           (case created of
              Inl t \<Rightarrow> Inl (uncaught t)
            | Inr sc \<Rightarrow> Inr \<lparr>url = sc_url sc, pl_expiresAt = sc_expires_at sc * 1000,
                             stripeSessionId = sc_id sc\<rparr>,
            c\<lparr>calls := calls c @ [CheckoutSessionsCreate (s_id s) (email (the (buyer s)))]\<rparr>)
       \<and> (now_get env = now \<and> now_processing env \<le> expiresAt s
            \<and> now_completed env \<le> expiresAt s
            \<and> fst (processSharedPaymentToken s spt (intent_created env) (intent_confirmed env))
                 = Inr pi
            \<and> pi_status pi = ''succeeded'' \<and> purchase_hook env = None \<longrightarrow>
            fst (completeCheckout env sid spt c) = Inr (order_of env s pi)
          \<and> calls (snd (completeCheckout env sid spt c))
               = calls c
                 @ snd (processSharedPaymentToken s spt (intent_created env) (intent_confirmed env))
                 @ [OnPurchase (order_of env s pi)])
       \<and> (payment s = None \<and> 0 < total (totals s) \<longrightarrow>
            snd (processSharedPaymentToken s spt (Inr pi0) confirmed)
              = [PaymentIntentsCreate (s_id s) (total (totals s)) (t_currency (totals s)),
                 PaymentIntentsConfirm (pi_id pi0) spt])"
proof (intro conjI impI)
  have c0: "c\<lparr>sessionManager := sessionManager c\<rparr> = c" by simp
  show "createPaymentLink now sid created c =
           (case created of
              Inl t \<Rightarrow> Inl (uncaught t)
            | Inr sc \<Rightarrow> Inr \<lparr>url = sc_url sc, pl_expiresAt = sc_expires_at sc * 1000,
                             stripeSessionId = sc_id sc\<rparr>,
            c\<lparr>calls := calls c @ [CheckoutSessionsCreate (s_id s) (email (the (buyer s)))]\<rparr>)"
    using assms(4,5)
    by (simp add: createPaymentLink_def get_live[OF assms(1,3)] createCheckoutSession_def
          split: sum.splits)
next
  assume a: "now_get env = now \<and> now_processing env \<le> expiresAt s
            \<and> now_completed env \<le> expiresAt s
            \<and> fst (processSharedPaymentToken s spt (intent_created env) (intent_confirmed env))
                 = Inr pi
            \<and> pi_status pi = ''succeeded'' \<and> purchase_hook env = None"
  have same: "s\<lparr>status := Processing\<rparr> = s" using assms(2) by (cases s) auto
  obtain cs where p: "processSharedPaymentToken s spt (intent_created env) (intent_confirmed env)
                        = (Inr pi, cs)"
    using a by (cases "processSharedPaymentToken s spt (intent_created env) (intent_confirmed env)")
      simp
  have l1: "now_get env \<le> expiresAt s" using a assms(3) by simp
  have "completeCheckout env sid spt c
          = (Inr (order_of env s pi), after_payment env sid s pi cs c)"
    using completeCheckout_paid[OF assms(1) l1 _ _ assms(4,5), of spt pi cs] a p same by simp
  then show "fst (completeCheckout env sid spt c) = Inr (order_of env s pi)"
    and "calls (snd (completeCheckout env sid spt c))
               = calls c
                 @ snd (processSharedPaymentToken s spt (intent_created env) (intent_confirmed env))
                 @ [OnPurchase (order_of env s pi)]"
    using p by (simp_all add: after_payment_def)
next
  assume "payment s = None \<and> 0 < total (totals s)"
  then show "snd (processSharedPaymentToken s spt (Inr pi0) confirmed)
              = [PaymentIntentsCreate (s_id s) (total (totals s)) (t_currency (totals s)),
                 PaymentIntentsConfirm (pi_id pi0) spt]"
    using assms(4)
    by (simp add: processSharedPaymentToken_def createPaymentIntent_def Let_def
          split: sum.splits Thrown.splits)
qed

theorem processing_session_is_charged_again_witness:
  "map_option status (sessions (sessionManager processing_shop) ''cs_1'') = Some Processing
   \<and> fst (createPaymentLink 10 ''cs_1'' (Inr link_ok) processing_shop)
       = Inr \<lparr>url = sc_url link_ok, pl_expiresAt = 3610000, stripeSessionId = sc_id link_ok\<rparr>
   \<and> calls (snd (createPaymentLink 10 ''cs_1'' (Inr link_ok) processing_shop))
       = [CheckoutSessionsCreate ''cs_1'' ''alice@example.com'']
   \<and> \<not> isl (fst (completeCheckout charge_ok ''cs_1'' ''spt_1'' processing_shop))
   \<and> o_id (projr (fst (completeCheckout charge_ok ''cs_1'' ''spt_1'' processing_shop))) = ''ord_1''
   \<and> take 2 (calls (snd (completeCheckout charge_ok ''cs_1'' ''spt_1'' processing_shop)))
       = [PaymentIntentsCreate ''cs_1'' 1999 USD, PaymentIntentsConfirm ''pi_1'' ''spt_1'']"
proof -
  let ?s = "the (sessions (sessionManager processing_shop) ''cs_1'')"
  let ?pi = "\<lparr>pi_id = ''pi_1'', pi_status = ''succeeded''\<rparr>"
  let ?created = "\<lparr>pi_id = ''pi_1'', pi_status = ''requires_payment_method''\<rparr>"
  have h: "sessions (sessionManager processing_shop) ''cs_1'' = Some ?s"
    "status ?s = Processing" "10 \<le> expiresAt ?s" "items ?s \<noteq> []" "has_email (buyer ?s)"
    by (simp_all add: world_defs shop_defs sm_defs ct_defs)
  have v: "s_id ?s = ''cs_1''" "email (the (buyer ?s)) = ''alice@example.com''"
    "calls processing_shop = []" "total (totals ?s) = 1999" "t_currency (totals ?s) = USD"
    by (simp_all add: world_defs shop_defs sm_defs ct_defs)
  have e: "now_get charge_ok = 10 \<and> now_processing charge_ok \<le> expiresAt ?s
            \<and> now_completed charge_ok \<le> expiresAt ?s
            \<and> fst (processSharedPaymentToken ?s ''spt_1'' (intent_created charge_ok)
                      (intent_confirmed charge_ok)) = Inr ?pi
            \<and> pi_status ?pi = ''succeeded'' \<and> purchase_hook charge_ok = None"
    "payment ?s = None \<and> 0 < total (totals ?s)"
    "intent_created charge_ok = Inr ?created"
    by (simp_all add: world_defs shop_defs sm_defs ct_defs)
  note t = processing_session_is_charged_again[OF h, of "Inr link_ok" charge_ok "''spt_1''" ?pi
      ?created "intent_confirmed charge_ok"]
  from t have "createPaymentLink 10 ''cs_1'' (Inr link_ok) processing_shop =
          (Inr \<lparr>url = sc_url link_ok, pl_expiresAt = sc_expires_at link_ok * 1000,
                 stripeSessionId = sc_id link_ok\<rparr>,
           processing_shop\<lparr>calls := calls processing_shop
              @ [CheckoutSessionsCreate (s_id ?s) (email (the (buyer ?s)))]\<rparr>)"
    by simp
  then have a: "fst (createPaymentLink 10 ''cs_1'' (Inr link_ok) processing_shop)
       = Inr \<lparr>url = sc_url link_ok, pl_expiresAt = 3610000, stripeSessionId = sc_id link_ok\<rparr>"
    "calls (snd (createPaymentLink 10 ''cs_1'' (Inr link_ok) processing_shop))
       = [CheckoutSessionsCreate ''cs_1'' ''alice@example.com'']"
    using v by (simp_all add: link_ok_def)
  from t e(1) have b: "fst (completeCheckout charge_ok ''cs_1'' ''spt_1'' processing_shop)
                         = Inr (order_of charge_ok ?s ?pi)"
    and d: "calls (snd (completeCheckout charge_ok ''cs_1'' ''spt_1'' processing_shop))
               = calls processing_shop
                 @ snd (processSharedPaymentToken ?s ''spt_1'' (intent_created charge_ok)
                          (intent_confirmed charge_ok))
                 @ [OnPurchase (order_of charge_ok ?s ?pi)]"
    by blast+
  from t e(2) have f: "snd (processSharedPaymentToken ?s ''spt_1'' (Inr ?created)
                              (intent_confirmed charge_ok))
              = [PaymentIntentsCreate (s_id ?s) (total (totals ?s)) (t_currency (totals ?s)),
                 PaymentIntentsConfirm (pi_id ?created) ''spt_1'']"
    by blast
  have g: "take 2 (calls (snd (completeCheckout charge_ok ''cs_1'' ''spt_1'' processing_shop)))
       = [PaymentIntentsCreate ''cs_1'' 1999 USD, PaymentIntentsConfirm ''pi_1'' ''spt_1'']"
    using d f v e(3) by simp
  have st: "map_option status (sessions (sessionManager processing_shop) ''cs_1'')
                   = Some Processing"
    by (simp add: world_defs shop_defs sm_defs ct_defs)
  have oid: "order_id charge_ok = ''ord_1''" by (simp add: charge_ok_def)
  show ?thesis using a b g st oid by simp
qed

text \<open>
  The claim's conflict error does not occur: on session cs_1 in status \<open>Processing\<close>
  both strategies succeed and both call the gateway.
\<close>

theorem processing_session_accepts_payment:
  "map_option status (sessions (sessionManager processing_shop) ''cs_1'') = Some Processing
   \<and> \<not> isl (fst (completeCheckout charge_ok ''cs_1'' ''spt_1'' processing_shop))
   \<and> take 2 (calls (snd (completeCheckout charge_ok ''cs_1'' ''spt_1'' processing_shop)))
       = [PaymentIntentsCreate ''cs_1'' 1999 USD, PaymentIntentsConfirm ''pi_1'' ''spt_1'']
   \<and> \<not> isl (fst (createPaymentLink 10 ''cs_1'' (Inr link_ok) processing_shop))
   \<and> calls (snd (createPaymentLink 10 ''cs_1'' (Inr link_ok) processing_shop))
       = [CheckoutSessionsCreate ''cs_1'' ''alice@example.com'']"
  by (simp add: world_defs shop_defs sm_defs ct_defs)

section \<open>Cancelling\<close>

text \<open>
  Claim C6, as amended. \<open>cancelCheckout\<close> does not look at the status. On every live
  session, whatever its status, it succeeds and sets the status to \<open>Cancelled\<close>,
  provided that the gateway's cancel call, which is made only when a payment intent is
  recorded on the session, does not throw.
\<close>

theorem cancelCheckout_ignores_status:
  assumes "sessions (sessionManager c) sid = Some s"
    and "now \<le> expiresAt s"
    and "now_cancelled \<le> expiresAt s"
    and "\<not> truthy_string (case payment s of None \<Rightarrow> None
                              | Some p \<Rightarrow> stripePaymentIntentId p)
         \<or> intent_cancelled = None"
  shows "fst (cancelCheckout now now_cancelled intent_cancelled sid c) = Inr ()
       \<and> sessions (sessionManager (snd (cancelCheckout now now_cancelled intent_cancelled sid c))) sid
           = Some (s\<lparr>status := Cancelled\<rparr>)"
  using assms(4)
  by (auto simp: cancelCheckout_def get_live[OF assms(1,2)] updateStatus_live[OF assms(1,3)]
        Let_def)

theorem cancelCheckout_ignores_status_witness:
  "map_option status (sessions (sessionManager paid_shop) ''cs_1'') = Some Completed
   \<and> fst (cancelCheckout 50 50 None ''cs_1'' paid_shop) = Inr ()
   \<and> map_option status
        (sessions (sessionManager (snd (cancelCheckout 50 50 None ''cs_1'' paid_shop))) ''cs_1'')
       = Some Cancelled"
proof -
  let ?s = "the (sessions (sessionManager paid_shop) ''cs_1'')"
  have h: "sessions (sessionManager paid_shop) ''cs_1'' = Some ?s"
    "50 \<le> expiresAt ?s" "50 \<le> expiresAt ?s"
    "\<not> truthy_string (case payment ?s of None \<Rightarrow> None | Some p \<Rightarrow> stripePaymentIntentId p)
       \<or> None = (None :: Thrown option)"
    by (simp_all add: world_defs shop_defs sm_defs ct_defs)
  have st: "map_option status (sessions (sessionManager paid_shop) ''cs_1'') = Some Completed"
    by (simp add: world_defs shop_defs sm_defs ct_defs)
  from cancelCheckout_ignores_status[OF h] st show ?thesis by simp
qed

text \<open>
  The claim's rejection in terminal states fails: cancelling the completed session cs_1
  succeeds and turns its status from \<open>Completed\<close> into \<open>Cancelled\<close>; and cancelling a
  session that is still \<open>Pending\<close> succeeds as well.
\<close>

theorem cancel_after_completion_succeeds:
  "map_option status (sessions (sessionManager paid_shop) ''cs_1'') = Some Completed
   \<and> fst (cancelCheckout 50 50 None ''cs_1'' paid_shop) = Inr ()
   \<and> map_option status
        (sessions (sessionManager (snd (cancelCheckout 50 50 None ''cs_1'' paid_shop))) ''cs_1'')
       = Some Cancelled
   \<and> map_option status (sessions (sessionManager (snd (createSession 0 ''cs_1'' shop))) ''cs_1'')
       = Some Pending
   \<and> fst (cancelCheckout 1 1 None ''cs_1'' (snd (createSession 0 ''cs_1'' shop))) = Inr ()"
  by (simp add: world_defs shop_defs sm_defs ct_defs)

section \<open>The fulfilment callback\<close>

text \<open>
  Claim C9, as amended. When the gateway confirms the token payment as succeeded on a live
  session with a non-empty cart and a buyer email, the order is built from the session,
  stored under its id, the session is marked \<open>Completed\<close>, and in that state
  (\<open>after_payment\<close>) the order is passed to the \<open>onPurchase\<close> callback. If the callback returns,
  the call returns the order and the session is \<open>Completed\<close>. If the callback throws, the
  order stays stored and retrievable, and the call fails: the callback's error is rethrown
  to the caller (or SessionNotFound, if the session has expired when the handler runs).
\<close>

theorem paid_order_survives_hook:
  assumes "sessions (sessionManager c) sid = Some s"
    and "now_get env \<le> expiresAt s"
    and "now_processing env \<le> expiresAt s"
    and "now_completed env \<le> expiresAt s"
    and "items s \<noteq> []"
    and "has_email (buyer s)"
    and "fst (processSharedPaymentToken (s\<lparr>status := Processing\<rparr>) spt
               (intent_created env) (intent_confirmed env)) = Inr pi"
    and "pi_status pi = ''succeeded''"
  shows "completeCheckout env sid spt c =
           (let c4 = after_payment env sid s pi
                       (snd (processSharedPaymentToken (s\<lparr>status := Processing\<rparr>) spt
                               (intent_created env) (intent_confirmed env))) c
            in case purchase_hook env of
                 None \<Rightarrow> (Inr (order_of env s pi), c4)
               | Some msg \<Rightarrow> on_catch env sid (Foreign msg) c4)
       \<and> getOrder (order_id env) (snd (completeCheckout env sid spt c)) = Some (order_of env s pi)
       \<and> sessionId (order_of env s pi) = s_id s
       \<and> o_items (order_of env s pi) = items s
       \<and> o_totals (order_of env s pi) = totals s
       \<and> last (calls (snd (completeCheckout env sid spt c))) = OnPurchase (order_of env s pi)
       \<and> (purchase_hook env = None \<longrightarrow>
            fst (completeCheckout env sid spt c) = Inr (order_of env s pi)
          \<and> map_option status (sessions (sessionManager (snd (completeCheckout env sid spt c))) sid)
              = Some Completed)
       \<and> (\<forall>msg. purchase_hook env = Some msg \<longrightarrow>
            isl (fst (completeCheckout env sid spt c))
          \<and> (now_failed env \<le> expiresAt s \<longrightarrow>
                fst (completeCheckout env sid spt c) = Inl (Foreign msg)))"
proof -
  obtain cs where p: "processSharedPaymentToken (s\<lparr>status := Processing\<rparr>) spt
               (intent_created env) (intent_confirmed env) = (Inr pi, cs)"
    using assms(7) by (cases "processSharedPaymentToken (s\<lparr>status := Processing\<rparr>) spt
               (intent_created env) (intent_confirmed env)") simp
  note cc = completeCheckout_paid[OF assms(1-6) p assms(8)]
  let ?c4 = "after_payment env sid s pi cs c"
  have s4: "sessions (sessionManager ?c4) sid = Some (s\<lparr>status := Completed\<rparr>)"
    by (simp add: after_payment_def)
  have oc: "\<And>e. orders (snd (on_catch env sid e ?c4)) = orders ?c4
              \<and> calls (snd (on_catch env sid e ?c4)) = calls ?c4
              \<and> isl (fst (on_catch env sid e ?c4))"
    by (auto simp: on_catch_def split: prod.splits sum.splits)
  have of: "\<And>e. now_failed env \<le> expiresAt s \<Longrightarrow> fst (on_catch env sid e ?c4) = Inl e"
    using updateStatus_live[OF s4, of "now_failed env" Failed]
    by (simp add: on_catch_def)
  have first: "completeCheckout env sid spt c =
           (let c4 = after_payment env sid s pi
                       (snd (processSharedPaymentToken (s\<lparr>status := Processing\<rparr>) spt
                               (intent_created env) (intent_confirmed env))) c
            in case purchase_hook env of
                 None \<Rightarrow> (Inr (order_of env s pi), c4)
               | Some msg \<Rightarrow> on_catch env sid (Foreign msg) c4)"
    using cc p by (simp add: Let_def)
  have rest: "getOrder (order_id env) (snd (completeCheckout env sid spt c)) = Some (order_of env s pi)
       \<and> sessionId (order_of env s pi) = s_id s
       \<and> o_items (order_of env s pi) = items s
       \<and> o_totals (order_of env s pi) = totals s
       \<and> last (calls (snd (completeCheckout env sid spt c))) = OnPurchase (order_of env s pi)
       \<and> (purchase_hook env = None \<longrightarrow>
            fst (completeCheckout env sid spt c) = Inr (order_of env s pi)
          \<and> map_option status (sessions (sessionManager (snd (completeCheckout env sid spt c))) sid)
              = Some Completed)
       \<and> (\<forall>msg. purchase_hook env = Some msg \<longrightarrow>
            isl (fst (completeCheckout env sid spt c))
          \<and> (now_failed env \<le> expiresAt s \<longrightarrow>
                fst (completeCheckout env sid spt c) = Inl (Foreign msg)))"
  proof (cases "purchase_hook env")
    case None
    then show ?thesis using cc
      by (simp add: getOrder_def after_payment_def order_of_def)
  next
    case (Some msg)
    then have "completeCheckout env sid spt c = on_catch env sid (Foreign msg) ?c4"
      using cc by simp
    then show ?thesis using Some oc[of "Foreign msg"] of[of "Foreign msg"]
      by (simp add: getOrder_def after_payment_def order_of_def)
  qed
  from first rest show ?thesis by (rule conjI)
qed

theorem paid_order_survives_hook_witness:
  "map_option sessionId (getOrder ''ord_1'' (snd (completeCheckout hook_fails ''cs_1'' ''spt_1'' ready_shop)))
     = Some ''cs_1''
   \<and> fst (completeCheckout hook_fails ''cs_1'' ''spt_1'' ready_shop)
       = Inl (Foreign ''mail server down'')
   \<and> fst (completeCheckout charge_ok ''cs_1'' ''spt_1'' ready_shop)
       = Inr (the (getOrder ''ord_1'' (snd (completeCheckout charge_ok ''cs_1'' ''spt_1'' ready_shop))))"
proof -
  let ?s = "the (sessions (sessionManager ready_shop) ''cs_1'')"
  let ?pi = "\<lparr>pi_id = ''pi_1'', pi_status = ''succeeded''\<rparr>"
  have h: "sessions (sessionManager ready_shop) ''cs_1'' = Some ?s"
    "now_get hook_fails \<le> expiresAt ?s"
    "now_processing hook_fails \<le> expiresAt ?s"
    "now_completed hook_fails \<le> expiresAt ?s"
    "items ?s \<noteq> []"
    "has_email (buyer ?s)"
    "fst (processSharedPaymentToken (?s\<lparr>status := Processing\<rparr>) ''spt_1''
               (intent_created hook_fails) (intent_confirmed hook_fails)) = Inr ?pi"
    "pi_status ?pi = ''succeeded''"
    by (simp_all add: world_defs shop_defs sm_defs ct_defs)
  have h': "sessions (sessionManager ready_shop) ''cs_1'' = Some ?s"
    "now_get charge_ok \<le> expiresAt ?s"
    "now_processing charge_ok \<le> expiresAt ?s"
    "now_completed charge_ok \<le> expiresAt ?s"
    "items ?s \<noteq> []"
    "has_email (buyer ?s)"
    "fst (processSharedPaymentToken (?s\<lparr>status := Processing\<rparr>) ''spt_1''
               (intent_created charge_ok) (intent_confirmed charge_ok)) = Inr ?pi"
    "pi_status ?pi = ''succeeded''"
    by (simp_all add: world_defs shop_defs sm_defs ct_defs)
  have e: "purchase_hook hook_fails = Some ''mail server down''" "now_failed hook_fails \<le> expiresAt ?s"
    "purchase_hook charge_ok = None" "s_id ?s = ''cs_1''" "order_id hook_fails = ''ord_1''"
    "order_id charge_ok = ''ord_1''"
    by (simp_all add: world_defs shop_defs sm_defs ct_defs)
  from paid_order_survives_hook[OF h, THEN conjunct2] e
  have a: "getOrder ''ord_1'' (snd (completeCheckout hook_fails ''cs_1'' ''spt_1'' ready_shop))
             = Some (order_of hook_fails ?s ?pi)"
    "sessionId (order_of hook_fails ?s ?pi) = ''cs_1''"
    "fst (completeCheckout hook_fails ''cs_1'' ''spt_1'' ready_shop) = Inl (Foreign ''mail server down'')"
    by simp_all
  from paid_order_survives_hook[OF h', THEN conjunct2] e
  have b: "getOrder ''ord_1'' (snd (completeCheckout charge_ok ''cs_1'' ''spt_1'' ready_shop))
             = Some (order_of charge_ok ?s ?pi)"
    "fst (completeCheckout charge_ok ''cs_1'' ''spt_1'' ready_shop) = Inr (order_of charge_ok ?s ?pi)"
    by simp_all
  show ?thesis using a b by simp
qed

text \<open>
  The claim's "session remains completed, failure reported as non-fatal" fails: with a
  callback that throws, the call ends in the callback's error and the session is marked
  \<open>Failed\<close>, while the order stays stored.
\<close>

theorem hook_failure_marks_session_failed:
  "fst (completeCheckout hook_fails ''cs_1'' ''spt_1'' ready_shop)
     = Inl (Foreign ''mail server down'')
   \<and> map_option status
        (sessions (sessionManager (snd (completeCheckout hook_fails ''cs_1'' ''spt_1'' ready_shop)))
           ''cs_1'')
       = Some Failed
   \<and> map_option sessionId
        (getOrder ''ord_1'' (snd (completeCheckout hook_fails ''cs_1'' ''spt_1'' ready_shop)))
       = Some ''cs_1''"
  by (simp add: world_defs shop_defs sm_defs ct_defs)

section \<open>Sessions created on demand\<close>

lemma create_fresh:
  "create now gid m = (fresh_session now gid m,
                       m\<lparr>sessions := (sessions m)(gid \<mapsto> fresh_session now gid m)\<rparr>)"
  by (simp add: create_def fresh_session_def Let_def)

lemma fresh_session_id [simp]: "s_id (fresh_session now gid m) = gid"
  by (simp add: fresh_session_def)

lemma addToCart_omitted:
  "\<not> truthy_string session_id \<Longrightarrow>
     addToCart now_create gid now session_id pid qty c
       = (fst (addItem now gid pid qty (snd (create now_create gid (sessionManager c)))),
          c\<lparr>sessionManager := snd (addItem now gid pid qty (snd (create now_create gid (sessionManager c))))\<rparr>)"
  by (simp add: addToCart_def create_fresh split: prod.splits)

lemma ct_setBuyer_omitted:
  "\<not> truthy_string session_id \<Longrightarrow>
     ct_setBuyer now_create gid now session_id b c
       = (fst (setBuyer now gid b (snd (create now_create gid (sessionManager c)))),
          c\<lparr>sessionManager := snd (setBuyer now gid b (snd (create now_create gid (sessionManager c))))\<rparr>)"
  by (simp add: ct_setBuyer_def create_fresh split: prod.splits)

text \<open>
  Claim C10, as amended. When \<open>addToCart\<close> or \<open>setBuyer\<close> of the SDK is called with a
  session id that is \<open>undefined\<close> or the empty string, it first creates a new session
  (pending, empty cart, zero totals, the generated id) and then applies the operation to
  that id. Unless the new session has already expired at the lookup that follows, the call
  does not fail with SessionNotFound: \<open>setBuyer\<close> returns the new session with the buyer
  set, and \<open>addToCart\<close> of a catalogue product with a positive quantity returns it with
  that one item, status \<open>Ready\<close>. With a non-empty session id that is unknown or expired
  both calls fail with SessionNotFound.
\<close>

theorem omitted_session_id_creates_session:
  "(\<not> truthy_string session_id \<longrightarrow>
       addToCart now_create gid now session_id pid qty c
         = (fst (addItem now gid pid qty (snd (create now_create gid (sessionManager c)))),
            c\<lparr>sessionManager := snd (addItem now gid pid qty (snd (create now_create gid (sessionManager c))))\<rparr>)
     \<and> ct_setBuyer now_create gid now session_id b c
         = (fst (setBuyer now gid b (snd (create now_create gid (sessionManager c)))),
            c\<lparr>sessionManager := snd (setBuyer now gid b (snd (create now_create gid (sessionManager c))))\<rparr>)
     \<and> sessions (snd (create now_create gid (sessionManager c))) gid
         = Some (fresh_session now_create gid (sessionManager c))
     \<and> (now \<le> now_create + sessionTTL (sessionManager c) \<longrightarrow>
          fst (addToCart now_create gid now session_id pid qty c) \<noteq> Inl SessionNotFound
        \<and> fst (ct_setBuyer now_create gid now session_id b c)
            = Inr ((fresh_session now_create gid (sessionManager c))\<lparr>buyer := Some b\<rparr>)
        \<and> (\<forall>p. products (sessionManager c) pid = Some p \<and> 0 < qty \<longrightarrow>
              fst (addToCart now_create gid now session_id pid qty c)
                = Inr ((fresh_session now_create gid (sessionManager c))
                        \<lparr>status := Ready,
                         items := [\<lparr>productId = p_id p, quantity = qty, price = p_price p,
                                    currency = p_currency p, name = p_name p\<rparr>],
                         totals := \<lparr>subtotal = p_price p * qty, tax = 0, shipping = 0,
                                    discount = 0, total = p_price p * qty,
                                    t_currency = p_currency p\<rparr>\<rparr>))))
   \<and> (truthy_string session_id
        \<and> (sessions (sessionManager c) (the session_id) = None
             \<or> (\<exists>s. sessions (sessionManager c) (the session_id) = Some s \<and> expiresAt s < now)) \<longrightarrow>
          fst (addToCart now_create gid now session_id pid qty c) = Inl SessionNotFound
        \<and> fst (ct_setBuyer now_create gid now session_id b c) = Inl SessionNotFound)"
proof (intro conjI impI allI)
  assume f: "\<not> truthy_string session_id"
  show "addToCart now_create gid now session_id pid qty c
         = (fst (addItem now gid pid qty (snd (create now_create gid (sessionManager c)))),
            c\<lparr>sessionManager := snd (addItem now gid pid qty (snd (create now_create gid (sessionManager c))))\<rparr>)"
    using f by (rule addToCart_omitted)
  show "ct_setBuyer now_create gid now session_id b c
         = (fst (setBuyer now gid b (snd (create now_create gid (sessionManager c)))),
            c\<lparr>sessionManager := snd (setBuyer now gid b (snd (create now_create gid (sessionManager c))))\<rparr>)"
    using f by (rule ct_setBuyer_omitted)
  show "sessions (snd (create now_create gid (sessionManager c))) gid
         = Some (fresh_session now_create gid (sessionManager c))"
    by (simp add: create_fresh)
next
  assume f: "\<not> truthy_string session_id"
    and l: "now \<le> now_create + sessionTTL (sessionManager c)"
  have g: "get now gid (snd (create now_create gid (sessionManager c)))
             = (Some (fresh_session now_create gid (sessionManager c)),
                snd (create now_create gid (sessionManager c)))"
    using l by (simp add: create_fresh get_def fresh_session_def)
  show "fst (addToCart now_create gid now session_id pid qty c) \<noteq> Inl SessionNotFound"
    using g
    by (simp add: addToCart_omitted[OF f] addItem_def Let_def split: option.splits)
  show "fst (ct_setBuyer now_create gid now session_id b c)
            = Inr ((fresh_session now_create gid (sessionManager c))\<lparr>buyer := Some b\<rparr>)"
    using g
    by (simp add: ct_setBuyer_omitted[OF f] setBuyer_def Let_def fresh_session_def
          recalculateTotals_def calculateSubtotal_def)
next
  fix p
  assume f: "\<not> truthy_string session_id"
    and l: "now \<le> now_create + sessionTTL (sessionManager c)"
    and pr: "products (sessionManager c) pid = Some p \<and> 0 < qty"
  have g: "get now gid (snd (create now_create gid (sessionManager c)))
             = (Some (fresh_session now_create gid (sessionManager c)),
                snd (create now_create gid (sessionManager c)))"
    using l by (simp add: create_fresh get_def fresh_session_def)
  show "fst (addToCart now_create gid now session_id pid qty c)
                = Inr ((fresh_session now_create gid (sessionManager c))
                        \<lparr>status := Ready,
                         items := [\<lparr>productId = p_id p, quantity = qty, price = p_price p,
                                    currency = p_currency p, name = p_name p\<rparr>],
                         totals := \<lparr>subtotal = p_price p * qty, tax = 0, shipping = 0,
                                    discount = 0, total = p_price p * qty,
                                    t_currency = p_currency p\<rparr>\<rparr>)"
    using g pr
    by (simp add: addToCart_omitted[OF f] addItem_def Let_def create_fresh fresh_session_def
          recalculateTotals_def calculateSubtotal_def)
next
  assume a: "truthy_string session_id
        \<and> (sessions (sessionManager c) (the session_id) = None
             \<or> (\<exists>s. sessions (sessionManager c) (the session_id) = Some s \<and> expiresAt s < now))"
  then have g: "fst (get now (the session_id) (sessionManager c)) = None"
    by (auto simp: get_def)
  show "fst (addToCart now_create gid now session_id pid qty c) = Inl SessionNotFound"
    using a g by (auto simp: addToCart_def addItem_def split: prod.splits option.splits)
  show "fst (ct_setBuyer now_create gid now session_id b c) = Inl SessionNotFound"
    using a g by (auto simp: ct_setBuyer_def setBuyer_def split: prod.splits option.splits)
qed

theorem omitted_session_id_creates_session_witness:
  "fst (addToCart 0 ''cs_7'' 0 None ''A'' 2 shop)
     = Inr ((fresh_session 0 ''cs_7'' (sessionManager shop))
              \<lparr>status := Ready,
               items := [\<lparr>productId = ''A'', quantity = 2, price = 1999, currency = USD,
                          name = ''Product A''\<rparr>],
               totals := \<lparr>subtotal = 3998, tax = 0, shipping = 0, discount = 0, total = 3998,
                          t_currency = USD\<rparr>\<rparr>)
   \<and> fst (addToCart 0 ''cs_7'' 0 (Some ''cs_unknown'') ''A'' 2 shop) = Inl SessionNotFound
   \<and> fst (ct_setBuyer 0 ''cs_7'' 4000000 (Some ''cs_1'') alice cart_shop) = Inl SessionNotFound"
proof -
  note t = omitted_session_id_creates_session[of None 0 "''cs_7''" 0 "''A''" 2 shop alice]
  have h: "\<not> truthy_string None" "(0::int) \<le> 0 + sessionTTL (sessionManager shop)"
    "products (sessionManager shop) ''A'' = Some product_A \<and> (0::int) < 2"
    by (simp_all add: shop_defs sm_defs)
  from t h have a: "fst (addToCart 0 ''cs_7'' 0 None ''A'' 2 shop)
                = Inr ((fresh_session 0 ''cs_7'' (sessionManager shop))
                        \<lparr>status := Ready,
                         items := [\<lparr>productId = p_id product_A, quantity = 2, price = p_price product_A,
                                    currency = p_currency product_A, name = p_name product_A\<rparr>],
                         totals := \<lparr>subtotal = p_price product_A * 2, tax = 0, shipping = 0,
                                    discount = 0, total = p_price product_A * 2,
                                    t_currency = p_currency product_A\<rparr>\<rparr>)"
    by blast
  note u = omitted_session_id_creates_session[of "Some ''cs_unknown''" 0 "''cs_7''" 0 "''A''" 2 shop alice]
  have hu: "truthy_string (Some ''cs_unknown'')"
    "sessions (sessionManager shop) (the (Some ''cs_unknown'')) = None"
    by (simp_all add: shop_defs sm_defs)
  from u hu have b: "fst (addToCart 0 ''cs_7'' 0 (Some ''cs_unknown'') ''A'' 2 shop) = Inl SessionNotFound"
    by blast
  note v = omitted_session_id_creates_session[of "Some ''cs_1''" 0 "''cs_7''" 4000000 "''A''" 2 cart_shop alice]
  have hv: "truthy_string (Some ''cs_1'')"
    "sessions (sessionManager cart_shop) (the (Some ''cs_1''))
       = Some (the (sessions (sessionManager cart_shop) ''cs_1''))"
    "expiresAt (the (sessions (sessionManager cart_shop) ''cs_1'')) < 4000000"
    by (simp_all add: world_defs shop_defs sm_defs)
  from v hv have d: "fst (ct_setBuyer 0 ''cs_7'' 4000000 (Some ''cs_1'') alice cart_shop) = Inl SessionNotFound"
    by blast
  show ?thesis using a b d by (simp add: product_A_def)
qed

text \<open>
  The claim's "an explicitly supplied but unknown id still fails" does not hold for the
  empty string: no session has that id, yet both calls succeed on a newly created session.
\<close>

theorem empty_session_id_creates_session:
  "sessions (sessionManager shop) [] = None
   \<and> \<not> isl (fst (addToCart 0 ''cs_7'' 0 (Some []) ''A'' 2 shop))
   \<and> s_id (projr (fst (addToCart 0 ''cs_7'' 0 (Some []) ''A'' 2 shop))) = ''cs_7''
   \<and> \<not> isl (fst (ct_setBuyer 0 ''cs_7'' 0 (Some []) alice shop))"
  by (simp add: world_defs shop_defs sm_defs ct_defs)

end
